theory Spec2Isabelle
  imports Complex_Main "HOL-Library.AList" "HOL-Library.Log_Nat"
begin

section \<open>Data model\<close>

text \<open>
  The exceptions the program can see. All of them are subclasses of Python's
  \<^verbatim>\<open>Exception\<close>, which is what \<^verbatim>\<open>retry_if_exception_type(Exception)\<close> selects.
  \<open>RemoteError\<close> stands for whatever a vendor client raises, \<open>IndexError\<close> for a list
  index out of range, \<open>ZeroDivisionError\<close> and \<open>OverflowError\<close> for a true division
  that has no double as its result, \<open>ValueError\<close> for a telemetry client built without a
  key, \<open>HTTPError\<close> for the telemetry SDK's \<^verbatim>\<open>raise_for_status\<close>, and \<open>RetryError\<close>
  for tenacity's wrapper around the last failed attempt.
\<close>

datatype exn =
    RemoteError string
  | IndexError
  | ZeroDivisionError
  | OverflowError
  | ValueError
  | HTTPError int
  | RetryError exn

text \<open>A Python float is an IEEE 754 double: a finite value (held as the rational it is
  exactly equal to), the negative zero, or an infinity. No operation of the program produces
  a NaN.\<close>

datatype pyfloat = Finite rat | NegZero | PosInf | NegInf

text \<open>A Python number: the usage percentage is the int \<open>0\<close> or a float.\<close>

datatype number = IntV int | FloatV pyfloat

record gauge_metric =
  metric_name :: string
  metric_value :: number
  metric_tags :: "(string \<times> string) list"

datatype cluster = Cluster (cluster_name: string)

datatype node_pool_ref = NodePoolRef (node_pool_name: string)

record node_pool =
  instance_group_urls :: "string list"
  autoscaling_max_node_count :: int

record node_pool_info =
  current_node_count :: int
  max_node_count :: int
  node_usage_percent :: number

text \<open>Everything the process does to the outside world, in order: the remote calls with
  their arguments, the sleeps of the retry policy, and the console output.\<close>

datatype event =
    ListClusters string
  | ListNodePools string
  | GetNodePool string
  | ListInstances string string string
  | SendBatch "gauge_metric list"
  | Sleep nat
  | Print string
  | PrintNodePool string int int number

text \<open>The remote collaborators and the process environment. A remote answer may depend on
  everything that happened before the call (the history), so an operation can fail a few
  times and then succeed.\<close>

record remote =
  list_clusters :: "event list \<Rightarrow> string \<Rightarrow> exn + cluster list"
  list_node_pools :: "event list \<Rightarrow> string \<Rightarrow> exn + node_pool_ref list"
  get_node_pool :: "event list \<Rightarrow> string \<Rightarrow> exn + node_pool"
  list_instances :: "event list \<Rightarrow> string \<Rightarrow> string \<Rightarrow> string \<Rightarrow> exn + string list option"
  send_batch :: "event list \<Rightarrow> string \<Rightarrow> gauge_metric list \<Rightarrow> exn + int"
  getenv :: "string \<Rightarrow> string option"

section \<open>Actions: state passing with exceptions\<close>

type_synonym 'a action = "event list \<Rightarrow> (exn + 'a) \<times> event list"

definition act_return :: "'a \<Rightarrow> 'a action" where
  "act_return v h = (Inr v, h)"

definition act_raise :: "exn \<Rightarrow> 'a action" where
  "act_raise e h = (Inl e, h)"

definition act_bind :: "'a action \<Rightarrow> ('a \<Rightarrow> 'b action) \<Rightarrow> 'b action" where
  "act_bind m k h = (case m h of (Inl e, h') \<Rightarrow> (Inl e, h') | (Inr v, h') \<Rightarrow> k v h')"

definition act_lift :: "exn + 'a \<Rightarrow> 'a action" where
  "act_lift r h = (r, h)"

text \<open>A remote call: the answer is decided by the history so far, and the call is recorded.\<close>

definition invoke :: "event \<Rightarrow> (event list \<Rightarrow> exn + 'a) \<Rightarrow> 'a action" where
  "invoke ev answer h = (answer h, h @ [ev])"

definition act_print :: "string \<Rightarrow> unit action" where
  "act_print s h = (Inr (), h @ [Print s])"

text \<open>Python's \<^verbatim>\<open>for x in xs: body(x)\<close>: an exception leaves the loop.\<close>

fun for_each :: "('a \<Rightarrow> unit action) \<Rightarrow> 'a list \<Rightarrow> unit action" where
  "for_each body [] = act_return ()"
| "for_each body (x # xs) = act_bind (body x) (\<lambda>_. for_each body xs)"

text \<open>The responses to one call per item, in order; used to state what a loop consumed.\<close>

fun act_map :: "('a \<Rightarrow> 'b action) \<Rightarrow> 'a list \<Rightarrow> 'b list action" where
  "act_map f [] = act_return []"
| "act_map f (x # xs) =
     act_bind (f x) (\<lambda>y. act_bind (act_map f xs) (\<lambda>ys. act_return (y # ys)))"

section \<open>RetryPolicy\<close>

definition RETRY_ATTEMPTS :: nat where
  "RETRY_ATTEMPTS = 5"

definition RETRY_WAIT :: nat where
  "RETRY_WAIT = 2"

text \<open>
  \<^verbatim>\<open>@retry(stop=stop_after_attempt(RETRY_ATTEMPTS), wait=wait_fixed(RETRY_WAIT),
  retry=retry_if_exception_type(Exception))\<close>: tenacity calls the function; a result is
  returned as it is; after an exception it stops when the attempt number has reached
  \<open>RETRY_ATTEMPTS\<close>, and then, \<^verbatim>\<open>reraise\<close> being left at its default \<^verbatim>\<open>False\<close>, raises
  \<^verbatim>\<open>RetryError\<close> from the last exception; otherwise it sleeps \<open>RETRY_WAIT\<close> seconds and
  calls again with the next attempt number.
\<close>

function retry_call :: "nat \<Rightarrow> 'a action \<Rightarrow> 'a action" where
  "retry_call attempt_number f h =
     (case f h of
        (Inr v, h') \<Rightarrow> (Inr v, h')
      | (Inl e, h') \<Rightarrow>
          if attempt_number \<ge> RETRY_ATTEMPTS then (Inl (RetryError e), h')
          else retry_call (Suc attempt_number) f (h' @ [Sleep RETRY_WAIT]))"
  by pat_completeness auto
termination
  by (relation "measure (\<lambda>(n, f, h). RETRY_ATTEMPTS - n)") auto

declare retry_call.simps [simp del]

definition retry :: "'a action \<Rightarrow> 'a action" where
  "retry f = retry_call 1 f"

section \<open>Python primitives\<close>

text \<open>\<^verbatim>\<open>s.split(sep)\<close> for a one-character separator: every separator ends a part, empty
  parts are kept, and the result has one part more than there are separators.\<close>

fun py_split :: "char \<Rightarrow> string \<Rightarrow> string list" where
  "py_split sep [] = [[]]"
| "py_split sep (c # cs) =
     (if c = sep then [] # py_split sep cs
      else (case py_split sep cs of [] \<Rightarrow> [[c]] | p # ps \<Rightarrow> (c # p) # ps))"

text \<open>\<^verbatim>\<open>xs[i]\<close> for a non-negative index: out of range raises \<^verbatim>\<open>IndexError\<close>.\<close>

definition py_index :: "'a list \<Rightarrow> nat \<Rightarrow> exn + 'a" where
  "py_index xs i = (if i < length xs then Inr (xs ! i) else Inl IndexError)"

text \<open>Rounding to a double, to nearest with ties to even. \<open>round_half_even\<close> rounds to an
  integer; \<open>floor_log2 a\<close> is the \<open>l\<close> with \<open>2 powi l \<le> a < 2 powi (l + 1)\<close> for a positive
  \<open>a\<close>; a double has 53 significant bits and no exponent below \<open>- 1074\<close>;
  \<open>round_magnitude\<close> rounds a non-negative value with these, and \<open>round_to_double\<close> adds the
  sign and turns a rounded value of \<open>2 ^ 1024\<close> or more, one whose integer part has more
  than 1024 bits, into an infinity.\<close>

definition round_half_even :: "rat \<Rightarrow> int" where
  "round_half_even x =
     (let f = \<lfloor>x\<rfloor>; d = x - of_int f in
      if d < 1 / 2 then f else if 1 / 2 < d then f + 1 else if even f then f else f + 1)"

definition floor_log2 :: "rat \<Rightarrow> int" where
  "floor_log2 a =
     (case quotient_of a of
        (n, d) \<Rightarrow> let k = bitlen n - bitlen d in if 2 powi k \<le> a then k else k - 1)"

definition float_exponent :: "rat \<Rightarrow> int" where
  "float_exponent a = max (floor_log2 a - 52) (- 1074)"

definition round_magnitude :: "rat \<Rightarrow> rat" where
  "round_magnitude a =
     (if a = 0 then 0
      else of_int (round_half_even (a / 2 powi float_exponent a)) * 2 powi float_exponent a)"

definition round_to_double :: "bool \<Rightarrow> rat \<Rightarrow> pyfloat" where
  "round_to_double negative a =
     (let r = round_magnitude a in
      if 1024 < bitlen \<lfloor>r\<rfloor> then (if negative then NegInf else PosInf)
      else if r = 0 then (if negative then NegZero else Finite 0)
      else Finite (if negative then - r else r))"

text \<open>\<^verbatim>\<open>a / b\<close> on ints: true division, the correctly rounded double of the quotient;
  \<^verbatim>\<open>ZeroDivisionError\<close> when \<open>b\<close> is zero, \<^verbatim>\<open>OverflowError\<close> when the quotient is too
  large for a double. A zero quotient takes its sign from \<open>b\<close>.\<close>

definition py_truediv :: "int \<Rightarrow> int \<Rightarrow> exn + pyfloat" where
  "py_truediv a b =
     (if b = 0 then Inl ZeroDivisionError
      else
        (case round_to_double ((a < 0) \<noteq> (b < 0)) \<bar>of_int a / of_int b\<bar> of
           PosInf \<Rightarrow> Inl OverflowError
         | NegInf \<Rightarrow> Inl OverflowError
         | Finite q \<Rightarrow> Inr (Finite q)
         | NegZero \<Rightarrow> Inr NegZero))"

text \<open>\<^verbatim>\<open>x * y\<close> for a float \<open>x\<close> and a positive finite double \<open>y\<close> (the program multiplies
  by 100 only): the correctly rounded double of the product, or an infinity.\<close>

definition py_float_mul :: "pyfloat \<Rightarrow> rat \<Rightarrow> pyfloat" where
  "py_float_mul x y =
     (case x of
        Finite v \<Rightarrow> round_to_double (v < 0) (\<bar>v\<bar> * y)
      | NegZero \<Rightarrow> NegZero
      | PosInf \<Rightarrow> PosInf
      | NegInf \<Rightarrow> NegInf)"

text \<open>\<^verbatim>\<open>d[k] = v\<close> on a dict, which keeps insertion order: a new key goes to the end, a
  known key keeps its place and gets the new value.\<close>

definition dict_set :: "('k \<times> 'v) list \<Rightarrow> 'k \<Rightarrow> 'v \<Rightarrow> ('k \<times> 'v) list" where
  "dict_set d k v = AList.update k v d"

section \<open>ClusterDiscovery\<close>

definition location_path :: "string \<Rightarrow> string \<Rightarrow> string" where
  "location_path project_id region = ''projects/'' @ project_id @ ''/locations/'' @ region"

definition cluster_path :: "string \<Rightarrow> string \<Rightarrow> string \<Rightarrow> string" where
  "cluster_path project_id region name =
     ''projects/'' @ project_id @ ''/locations/'' @ region @ ''/clusters/'' @ name"

text \<open>The loop of lines 28 to 30, with the dict built so far.\<close>

fun collect_node_pools ::
  "remote \<Rightarrow> string \<Rightarrow> string \<Rightarrow> cluster list \<Rightarrow> (string \<times> string list) list
     \<Rightarrow> (string \<times> string list) list action" where
  "collect_node_pools env project_id region [] cluster_node_pools =
     act_return cluster_node_pools"
| "collect_node_pools env project_id region (c # clusters) cluster_node_pools =
     act_bind
       (invoke (ListNodePools (cluster_path project_id region (cluster_name c)))
          (\<lambda>h. list_node_pools env h (cluster_path project_id region (cluster_name c))))
       (\<lambda>node_pools.
          collect_node_pools env project_id region clusters
            (dict_set cluster_node_pools (cluster_name c) (map node_pool_name node_pools)))"

definition get_all_clusters_and_node_pools_body ::
  "remote \<Rightarrow> string \<Rightarrow> string \<Rightarrow> (string \<times> string list) list action" where
  "get_all_clusters_and_node_pools_body env project_id region =
     act_bind
       (invoke (ListClusters (location_path project_id region))
          (\<lambda>h. list_clusters env h (location_path project_id region)))
       (\<lambda>clusters. collect_node_pools env project_id region clusters [])"

definition get_all_clusters_and_node_pools ::
  "remote \<Rightarrow> string \<Rightarrow> string \<Rightarrow> (string \<times> string list) list action" where
  "get_all_clusters_and_node_pools env project_id region =
     retry (get_all_clusters_and_node_pools_body env project_id region)"

section \<open>InstanceGroupCounter\<close>

text \<open>Lines 46 to 49: the three slots are read in this order, each may raise.\<close>

definition parse_instance_group_url :: "string \<Rightarrow> exn + (string \<times> string \<times> string)" where
  "parse_instance_group_url instance_group_url =
     (let parts = py_split CHR ''/'' instance_group_url in
      case py_index parts 6 of
        Inl e \<Rightarrow> Inl e
      | Inr project \<Rightarrow>
          (case py_index parts 8 of
             Inl e \<Rightarrow> Inl e
           | Inr zone \<Rightarrow>
               (case py_index parts 10 of
                  Inl e \<Rightarrow> Inl e
                | Inr instance_group \<Rightarrow> Inr (project, zone, instance_group))))"

text \<open>Line 54, \<^verbatim>\<open>len(response) if response else 0\<close>: a missing or empty \<^verbatim>\<open>items\<close> is
  falsy.\<close>

definition count_items :: "string list option \<Rightarrow> int" where
  "count_items response =
     (case response of
        None \<Rightarrow> 0
      | Some items \<Rightarrow> if items \<noteq> [] then int (length items) else 0)"

definition get_instance_group_node_count_body :: "remote \<Rightarrow> string \<Rightarrow> int action" where
  "get_instance_group_node_count_body env instance_group_url =
     act_bind (act_lift (parse_instance_group_url instance_group_url))
       (\<lambda>(project, zone, instance_group).
          act_bind
            (invoke (ListInstances project zone instance_group)
               (\<lambda>h. list_instances env h project zone instance_group))
            (\<lambda>response. act_return (count_items response)))"

definition get_instance_group_node_count :: "remote \<Rightarrow> string \<Rightarrow> int action" where
  "get_instance_group_node_count env instance_group_url =
     retry (get_instance_group_node_count_body env instance_group_url)"

section \<open>NodePoolResolver and UtilizationCalculator\<close>

definition node_pool_path :: "string \<Rightarrow> string \<Rightarrow> string \<Rightarrow> string \<Rightarrow> string" where
  "node_pool_path project_id region name pool =
     ''projects/'' @ project_id @ ''/locations/'' @ region @ ''/clusters/'' @ name
       @ ''/nodePools/'' @ pool"

text \<open>\<^verbatim>\<open>sum(get_instance_group_node_count(url) for url in urls)\<close>: the accumulator starts
  at 0 and each count is added as it arrives.\<close>

fun sum_node_counts :: "remote \<Rightarrow> string list \<Rightarrow> int \<Rightarrow> int action" where
  "sum_node_counts env [] acc = act_return acc"
| "sum_node_counts env (url # urls) acc =
     act_bind (get_instance_group_node_count env url)
       (\<lambda>n. sum_node_counts env urls (acc + n))"

text \<open>Line 82: \<^verbatim>\<open>(current / max) * 100 if max else 0\<close>.\<close>

definition compute_node_usage_percent :: "int \<Rightarrow> int \<Rightarrow> exn + number" where
  "compute_node_usage_percent current mx =
     (if mx \<noteq> 0 then
        (case py_truediv current mx of
           Inl e \<Rightarrow> Inl e
         | Inr q \<Rightarrow> Inr (FloatV (py_float_mul q 100)))
      else Inr (IntV 0))"

text \<open>Lines 79 to 83: the returned dict.\<close>

definition make_node_pool_info :: "int \<Rightarrow> int \<Rightarrow> exn + node_pool_info" where
  "make_node_pool_info current mx =
     (case compute_node_usage_percent current mx of
        Inl e \<Rightarrow> Inl e
      | Inr percent \<Rightarrow>
          Inr \<lparr>current_node_count = current, max_node_count = mx,
               node_usage_percent = percent\<rparr>)"

definition get_node_pool_info_body ::
  "remote \<Rightarrow> string \<Rightarrow> string \<Rightarrow> string \<Rightarrow> string \<Rightarrow> node_pool_info action" where
  "get_node_pool_info_body env project_id region name pool =
     act_bind
       (invoke (GetNodePool (node_pool_path project_id region name pool))
          (\<lambda>h. get_node_pool env h (node_pool_path project_id region name pool)))
       (\<lambda>np.
          act_bind (sum_node_counts env (instance_group_urls np) 0)
            (\<lambda>current.
               act_lift (make_node_pool_info current (autoscaling_max_node_count np))))"

definition get_node_pool_info ::
  "remote \<Rightarrow> string \<Rightarrow> string \<Rightarrow> string \<Rightarrow> string \<Rightarrow> node_pool_info action" where
  "get_node_pool_info env project_id region name pool =
     retry (get_node_pool_info_body env project_id region name pool)"

section \<open>MetricsEmitter\<close>

definition make_tags :: "string \<Rightarrow> string \<Rightarrow> string \<Rightarrow> string \<Rightarrow> (string \<times> string) list" where
  "make_tags project_id region name pool =
     [(''project_id'', project_id), (''region'', region), (''cluster_name'', name),
      (''node_pool_name'', pool)]"

definition make_metrics ::
  "string \<Rightarrow> string \<Rightarrow> string \<Rightarrow> string \<Rightarrow> node_pool_info \<Rightarrow> gauge_metric list" where
  "make_metrics project_id region name pool info =
     (let tags = make_tags project_id region name pool in
      [\<lparr>metric_name = ''gke.node_pool.current_node_count'',
         metric_value = IntV (current_node_count info), metric_tags = tags\<rparr>,
       \<lparr>metric_name = ''gke.node_pool.max_node_count'',
         metric_value = IntV (max_node_count info), metric_tags = tags\<rparr>,
       \<lparr>metric_name = ''gke.node_pool.node_usage_percent'',
         metric_value = node_usage_percent info, metric_tags = tags\<rparr>])"

text \<open>The telemetry SDK's \<^verbatim>\<open>response.raise_for_status()\<close>: a status from 200 to 299 is
  success, any other raises \<^verbatim>\<open>HTTPError\<close>.\<close>

definition raise_for_status :: "int \<Rightarrow> unit action" where
  "raise_for_status status =
     (if 200 \<le> status \<and> status < 300 then act_return () else act_raise (HTTPError status))"

definition send_metrics_to_newrelic_body ::
  "remote \<Rightarrow> string \<Rightarrow> string \<Rightarrow> string \<Rightarrow> string \<Rightarrow> string \<Rightarrow> node_pool_info
     \<Rightarrow> unit action" where
  "send_metrics_to_newrelic_body env metrics_client project_id region name pool info =
     (let metrics = make_metrics project_id region name pool info in
      act_bind (invoke (SendBatch metrics) (\<lambda>h. send_batch env h metrics_client metrics))
        (\<lambda>response.
           act_bind (raise_for_status response)
             (\<lambda>_. act_print ''Sent metrics successfully!'')))"

definition send_metrics_to_newrelic ::
  "remote \<Rightarrow> string \<Rightarrow> string \<Rightarrow> string \<Rightarrow> string \<Rightarrow> string \<Rightarrow> node_pool_info
     \<Rightarrow> unit action" where
  "send_metrics_to_newrelic env metrics_client project_id region name pool info =
     retry (send_metrics_to_newrelic_body env metrics_client project_id region name pool info)"

section \<open>PollOrchestrator\<close>

text \<open>Line 129, \<^verbatim>\<open>MetricClient(os.getenv("NEW_RELIC_API_KEY"))\<close>: the telemetry SDK refuses a
  missing or empty key with \<^verbatim>\<open>ValueError\<close>; otherwise the client is the handle that carries
  the key. It makes no remote call. The Google clients of lines 22, 51 and 71 are built
  without arguments and leave no event either.\<close>

definition MetricClient :: "string option \<Rightarrow> exn + string" where
  "MetricClient key =
     (case key of
        None \<Rightarrow> Inl ValueError
      | Some k \<Rightarrow> if k = [] then Inl ValueError else Inr k)"

text \<open>The three nested loops of lines 132 to 146, innermost first. The node-pool report
  of lines 140 to 145 is recorded with its values; its text layout is not modelled.\<close>

definition print_node_pool :: "string \<Rightarrow> node_pool_info \<Rightarrow> unit action" where
  "print_node_pool pool info h =
     (Inr (),
      h @ [PrintNodePool pool (current_node_count info) (max_node_count info)
             (node_usage_percent info)])"

definition node_pool_step ::
  "remote \<Rightarrow> string \<Rightarrow> string \<Rightarrow> string \<Rightarrow> string \<Rightarrow> string \<Rightarrow> unit action" where
  "node_pool_step env metrics_client project_id region name pool =
     act_bind (get_node_pool_info env project_id region name pool)
       (\<lambda>info.
          act_bind (print_node_pool pool info)
            (\<lambda>_. send_metrics_to_newrelic env metrics_client project_id region name pool
                   info))"

definition cluster_step ::
  "remote \<Rightarrow> string \<Rightarrow> string \<Rightarrow> string \<Rightarrow> string \<times> string list \<Rightarrow> unit action" where
  "cluster_step env metrics_client project_id region item =
     (case item of
        (name, node_pools) \<Rightarrow>
          act_bind (act_print (''  Cluster: '' @ name))
            (\<lambda>_. for_each (node_pool_step env metrics_client project_id region name)
                   node_pools))"

definition project_step :: "remote \<Rightarrow> string \<Rightarrow> string \<Rightarrow> string \<Rightarrow> unit action" where
  "project_step env metrics_client region project_id =
     act_bind (act_print (CHR 0x0A # ''Project: '' @ project_id))
       (\<lambda>_.
          act_bind (get_all_clusters_and_node_pools env project_id region)
            (\<lambda>clusters_and_pools.
               for_each (cluster_step env metrics_client project_id region)
                 clusters_and_pools))"

definition list_clusters_and_node_pools_info_and_send_metrics_body ::
  "remote \<Rightarrow> string list \<Rightarrow> string \<Rightarrow> unit action" where
  "list_clusters_and_node_pools_info_and_send_metrics_body env project_ids region =
     act_bind (act_lift (MetricClient (getenv env ''NEW_RELIC_API_KEY'')))
       (\<lambda>metrics_client. for_each (project_step env metrics_client region) project_ids)"

definition list_clusters_and_node_pools_info_and_send_metrics ::
  "remote \<Rightarrow> string list \<Rightarrow> string \<Rightarrow> unit action" where
  "list_clusters_and_node_pools_info_and_send_metrics env project_ids region =
     retry (list_clusters_and_node_pools_info_and_send_metrics_body env project_ids region)"

section \<open>Entry block\<close>

definition main_block :: "remote \<Rightarrow> unit action" where
  "main_block env =
     (let PROJECT_IDS_STR =
            (case getenv env ''GCP_PROJECT_IDS'' of None \<Rightarrow> [] | Some v \<Rightarrow> v);
          REGION = (case getenv env ''GCP_REGION'' of None \<Rightarrow> ''us-central1'' | Some v \<Rightarrow> v);
          PROJECT_IDS =
            (if PROJECT_IDS_STR \<noteq> [] then py_split CHR '','' PROJECT_IDS_STR else [])
      in if PROJECT_IDS = [] then
           act_print ''No project IDs found. Set the GCP_PROJECT_IDS environment variable.''
         else list_clusters_and_node_pools_info_and_send_metrics env PROJECT_IDS REGION)"

section \<open>Vocabulary of the statements\<close>

text \<open>What \<open>k\<close> failed attempts at a remote call leave in the history: the call and the
  sleep that follows it, \<open>k\<close> times.\<close>

definition rounds :: "event \<Rightarrow> nat \<Rightarrow> event list" where
  "rounds ev k = concat (replicate k [ev, Sleep RETRY_WAIT])"

text \<open>The history at which attempt \<open>i + 1\<close> of a retried function starts when the attempts
  before it have failed: each failed attempt leaves its own events and is followed by the
  sleep of the retry policy.\<close>

fun attempt_history :: "'a action \<Rightarrow> event list \<Rightarrow> nat \<Rightarrow> event list" where
  "attempt_history f h 0 = h"
| "attempt_history f h (Suc i) = attempt_history f (snd (f h) @ [Sleep RETRY_WAIT]) i"

text \<open>What the emitter makes of an answer of the ingestion endpoint: the exception it raises,
  if any.\<close>

definition send_failure :: "exn + int \<Rightarrow> exn option" where
  "send_failure answer =
     (case answer of
        Inl e \<Rightarrow> Some e
      | Inr status \<Rightarrow>
          if 200 \<le> status \<and> status < 300 then None else Some (HTTPError status))"

fun is_emission :: "event \<Rightarrow> bool" where
  "is_emission (SendBatch metrics) = True"
| "is_emission _ = False"

fun is_remote_call :: "event \<Rightarrow> bool" where
  "is_remote_call (Sleep d) = False"
| "is_remote_call (Print s) = False"
| "is_remote_call (PrintNodePool pool current mx percent) = False"
| "is_remote_call _ = True"

text \<open>The per-cluster listing call of line 29, as one action.\<close>

definition list_node_pools_of :: "remote \<Rightarrow> string \<Rightarrow> string \<Rightarrow> cluster \<Rightarrow> node_pool_ref list action" where
  "list_node_pools_of env project_id region c =
     invoke (ListNodePools (cluster_path project_id region (cluster_name c)))
       (\<lambda>h. list_node_pools env h (cluster_path project_id region (cluster_name c)))"

section \<open>Scenarios\<close>

text \<open>Project \<open>p1\<close> with one cluster \<open>c1\<close> and one node pool \<open>np1\<close>, backed by two
  instance groups of 3 and 4 instances, with an autoscaling ceiling of 10. The project list
  and the telemetry key are set, the region is not.\<close>

definition url1 :: string where
  "url1 = ''https://www.googleapis.com/compute/v1/projects/p1/zones/us-central1-a/instanceGroupManagers/ig1''"

definition url2 :: string where
  "url2 = ''https://www.googleapis.com/compute/v1/projects/p1/zones/us-central1-b/instanceGroupManagers/ig2''"

definition env_p1 :: remote where
  "env_p1 =
     \<lparr>list_clusters = (\<lambda>h parent. Inr [Cluster ''c1'']),
      list_node_pools = (\<lambda>h parent. Inr [NodePoolRef ''np1'']),
      get_node_pool = (\<lambda>h name.
         Inr \<lparr>instance_group_urls = [url1, url2], autoscaling_max_node_count = 10\<rparr>),
      list_instances = (\<lambda>h project zone instance_group.
         Inr (Some (if instance_group = ''ig1'' then [''vm-a'', ''vm-b'', ''vm-c'']
                    else [''vm-d'', ''vm-e'', ''vm-f'', ''vm-g'']))),
      send_batch = (\<lambda>h metrics_client metrics. Inr 202),
      getenv = (\<lambda>name.
         if name = ''GCP_PROJECT_IDS'' then Some ''p1''
         else if name = ''NEW_RELIC_API_KEY'' then Some ''nr-key''
         else None)\<rparr>"

text \<open>The same project with a second node pool \<open>np2\<close> whose resource cannot be fetched;
  the pools have no instance groups.\<close>

definition env_np2_down :: remote where
  "env_np2_down =
     env_p1
       \<lparr>list_node_pools := (\<lambda>h parent. Inr [NodePoolRef ''np1'', NodePoolRef ''np2'']),
        get_node_pool := (\<lambda>h name.
          if name = node_pool_path ''p1'' ''us-central1'' ''c1'' ''np2''
          then Inl (RemoteError ''unavailable'')
          else Inr \<lparr>instance_group_urls = [], autoscaling_max_node_count = 10\<rparr>)\<rparr>"

text \<open>An ingestion endpoint that answers 503, and a process with no variable set.\<close>

definition env_503 :: remote where
  "env_503 = env_p1 \<lparr>send_batch := (\<lambda>h metrics_client metrics. Inr 503)\<rparr>"

definition env_unset :: remote where
  "env_unset = env_p1 \<lparr>getenv := (\<lambda>name. None)\<rparr>"

text \<open>A listing that is unavailable twice and then answers, and one that never answers.\<close>

definition flaky_clusters :: "event list \<Rightarrow> exn + cluster list" where
  "flaky_clusters h =
     (if length h < 4 then Inl (RemoteError ''unavailable'') else Inr [Cluster ''c1''])"

definition no_clusters :: "event list \<Rightarrow> exn + cluster list" where
  "no_clusters h = Inl (RemoteError ''unavailable'')"

definition ev_p1 :: event where
  "ev_p1 = ListClusters ''projects/p1/locations/us-central1''"

text \<open>Locators of 12 and of 10 segments.\<close>

definition url_long :: string where
  "url_long = ''https://www.googleapis.com/compute/v1/projects/p1/zones/us-central1-a/instanceGroupManagers/ig1/extra''"

definition url_short :: string where
  "url_short = ''https://www.googleapis.com/compute/v1/projects/p1/zones/us-central1-a/instanceGroupManagers''"

text \<open>A listing whose \<^verbatim>\<open>items\<close> field is absent.\<close>

definition env_no_items :: remote where
  "env_no_items = env_p1 \<lparr>list_instances := (\<lambda>h project zone instance_group. Inr None)\<rparr>"

text \<open>A dict built by assigning the items in order, as the loop of lines 28 to 30 does.\<close>

definition dict_of_items :: "('k \<times> 'v) list \<Rightarrow> ('k \<times> 'v) list" where
  "dict_of_items items = foldl (\<lambda>d (k, v). dict_set d k v) [] items"

text \<open>Two clusters and their node pools, returned in an order that is not alphabetical.\<close>

definition env_two_clusters :: remote where
  "env_two_clusters =
     env_p1
       \<lparr>list_clusters := (\<lambda>h parent. Inr [Cluster ''zeta'', Cluster ''alpha'']),
        list_node_pools := (\<lambda>h parent.
          if parent = cluster_path ''p1'' ''us-central1'' ''zeta''
          then Inr [NodePoolRef ''pool-b'', NodePoolRef ''pool-a'']
          else Inr [NodePoolRef ''pool-c''])\<rparr>"

text \<open>A node-pool listing that is unavailable until five events have happened, and a
  process with the project list but no telemetry key.\<close>

definition env_flaky_pools :: remote where
  "env_flaky_pools =
     env_p1
       \<lparr>list_node_pools := (\<lambda>h parent.
          if length h < 5 then Inl (RemoteError ''unavailable'')
          else Inr [NodePoolRef ''np1''])\<rparr>"

definition env_no_key :: remote where
  "env_no_key =
     env_p1 \<lparr>getenv := (\<lambda>name. if name = ''GCP_PROJECT_IDS'' then Some ''p1'' else None)\<rparr>"

section \<open>Loops leave at the first exception\<close>

lemma for_each_append:
  "for_each body xs h = (Inr (), h1) \<Longrightarrow> for_each body (xs @ ys) h = for_each body ys h1"
proof (induction xs arbitrary: h)
  case Nil
  then show ?case by (simp add: act_return_def)
next
  case (Cons x xs)
  show ?case
  proof (cases "body x h")
    case (Pair res hx)
    show ?thesis
    proof (cases res)
      case (Inl e)
      with Pair Cons.prems show ?thesis by (simp add: act_bind_def)
    next
      case (Inr u)
      with Pair Cons.prems have "for_each body xs hx = (Inr (), h1)"
        by (simp add: act_bind_def)
      then have "for_each body (xs @ ys) hx = for_each body ys h1"
        by (rule Cons.IH)
      with Pair Inr show ?thesis by (simp add: act_bind_def)
    qed
  qed
qed

lemma for_each_abort:
  assumes "for_each body xs h = (Inr (), h1)" and "body x h1 = (Inl e, h2)"
  shows "for_each body (xs @ x # ys) h = (Inl e, h2)"
proof -
  have "for_each body (xs @ x # ys) h = for_each body (x # ys) h1"
    using assms(1) by (rule for_each_append)
  also have "\<dots> = (Inl e, h2)"
    using assms(2) by (simp add: act_bind_def)
  finally show ?thesis .
qed

section \<open>The retry loop\<close>

lemma rounds_0: "rounds ev 0 = []"
  by (simp add: rounds_def)

lemma rounds_Suc: "rounds ev (Suc k) = ev # Sleep RETRY_WAIT # rounds ev k"
  by (simp add: rounds_def)

lemma retry_call_Inr: "f h = (Inr v, h') \<Longrightarrow> retry_call n f h = (Inr v, h')"
  by (subst retry_call.simps) simp

lemma retry_call_stop:
  "f h = (Inl e, h') \<Longrightarrow> RETRY_ATTEMPTS \<le> n \<Longrightarrow> retry_call n f h = (Inl (RetryError e), h')"
  by (subst retry_call.simps) simp

lemma retry_call_again:
  "f h = (Inl e, h') \<Longrightarrow> n < RETRY_ATTEMPTS \<Longrightarrow>
   retry_call n f h = retry_call (Suc n) f (h' @ [Sleep RETRY_WAIT])"
  by (subst retry_call.simps) simp

lemma retry_Inr: "f h = (Inr v, h') \<Longrightarrow> retry f h = (Inr v, h')"
  by (simp add: retry_def retry_call_Inr)

lemma retry_call_Inl_D:
  "retry_call n f h = (Inl e, h') \<Longrightarrow> \<exists>e' h1. e = RetryError e' \<and> f h1 = (Inl e', h')"
proof (induction n f h rule: retry_call.induct)
  case (1 n f h)
  show ?case
  proof (cases "f h")
    case (Pair res hx)
    show ?thesis
    proof (cases res)
      case (Inr v)
      with Pair "1.prems" show ?thesis by (simp add: retry_call_Inr)
    next
      case (Inl e0)
      show ?thesis
      proof (cases "RETRY_ATTEMPTS \<le> n")
        case True
        with Pair Inl "1.prems" have "e = RetryError e0 \<and> h' = hx"
          by (simp add: retry_call_stop)
        with Pair Inl show ?thesis by blast
      next
        case False
        with Pair Inl "1.prems"
        have "retry_call (Suc n) f (hx @ [Sleep RETRY_WAIT]) = (Inl e, h')"
          by (simp add: retry_call_again)
        with Pair Inl False "1.IH" show ?thesis by simp
      qed
    qed
  qed
qed

lemma retry_call_Inr_D:
  "retry_call n f h = (Inr v, h') \<Longrightarrow> \<exists>h1. f h1 = (Inr v, h')"
proof (induction n f h rule: retry_call.induct)
  case (1 n f h)
  show ?case
  proof (cases "f h")
    case (Pair res hx)
    show ?thesis
    proof (cases res)
      case (Inr w)
      with Pair "1.prems" have "w = v \<and> hx = h'" by (simp add: retry_call_Inr)
      with Pair Inr show ?thesis by blast
    next
      case (Inl e0)
      show ?thesis
      proof (cases "RETRY_ATTEMPTS \<le> n")
        case True
        with Pair Inl "1.prems" show ?thesis by (simp add: retry_call_stop)
      next
        case False
        with Pair Inl "1.prems"
        have "retry_call (Suc n) f (hx @ [Sleep RETRY_WAIT]) = (Inr v, h')"
          by (simp add: retry_call_again)
        with Pair Inl False "1.IH" show ?thesis by simp
      qed
    qed
  qed
qed

text \<open>An attempt that fails the same way whatever the history, and leaves no trace: the
  wrapper sleeps four times and gives up.\<close>

lemma retry_call_pure_failure:
  assumes "\<And>h. f h = (Inl e, h)"
  shows "n + k = RETRY_ATTEMPTS \<Longrightarrow>
    retry_call n f h = (Inl (RetryError e), h @ replicate k (Sleep RETRY_WAIT))"
proof (induction k arbitrary: n h)
  case 0
  then show ?case by (simp add: retry_call_stop assms)
next
  case (Suc k)
  have "retry_call n f h = retry_call (Suc n) f (h @ [Sleep RETRY_WAIT])"
    using Suc.prems by (intro retry_call_again [of f h e]) (simp_all add: assms)
  also have "\<dots> = (Inl (RetryError e), (h @ [Sleep RETRY_WAIT]) @ replicate k (Sleep RETRY_WAIT))"
    using Suc.prems by (intro Suc.IH) simp
  finally show ?case by simp
qed

lemma retry_call_general_returns:
  "n + k \<le> RETRY_ATTEMPTS \<Longrightarrow> \<forall>i<k. isl (fst (f (attempt_history f h i))) \<Longrightarrow>
   f (attempt_history f h k) = (Inr v, h') \<Longrightarrow> retry_call n f h = (Inr v, h')"
proof (induction k arbitrary: n h)
  case 0
  then show ?case by (simp add: retry_call_Inr)
next
  case (Suc k)
  from Suc.prems(2) have "isl (fst (f (attempt_history f h 0)))" by blast
  then obtain e hx where first: "f h = (Inl e, hx)"
    by (cases "f h") (auto simp: isl_def)
  have step: "retry_call n f h = retry_call (Suc n) f (hx @ [Sleep RETRY_WAIT])"
    using Suc.prems(1) first by (intro retry_call_again) simp_all
  have later: "\<forall>i<k. isl (fst (f (attempt_history f (hx @ [Sleep RETRY_WAIT]) i)))"
  proof (intro allI impI)
    fix i assume "i < k"
    then have "Suc i < Suc k" by simp
    with Suc.prems(2) have "isl (fst (f (attempt_history f h (Suc i))))" by blast
    then show "isl (fst (f (attempt_history f (hx @ [Sleep RETRY_WAIT]) i)))"
      by (simp add: first)
  qed
  have last: "f (attempt_history f (hx @ [Sleep RETRY_WAIT]) k) = (Inr v, h')"
    using Suc.prems(3) by (simp add: first)
  have "retry_call (Suc n) f (hx @ [Sleep RETRY_WAIT]) = (Inr v, h')"
    using Suc.prems(1) by (intro Suc.IH later last) simp
  with step show ?case by simp
qed

lemma retry_call_general_gives_up:
  "n + k = RETRY_ATTEMPTS \<Longrightarrow> \<forall>i<k. isl (fst (f (attempt_history f h i))) \<Longrightarrow>
   f (attempt_history f h k) = (Inl e, h') \<Longrightarrow> retry_call n f h = (Inl (RetryError e), h')"
proof (induction k arbitrary: n h)
  case 0
  then show ?case by (simp add: retry_call_stop)
next
  case (Suc k)
  from Suc.prems(2) have "isl (fst (f (attempt_history f h 0)))" by blast
  then obtain e0 hx where first: "f h = (Inl e0, hx)"
    by (cases "f h") (auto simp: isl_def)
  have step: "retry_call n f h = retry_call (Suc n) f (hx @ [Sleep RETRY_WAIT])"
    using Suc.prems(1) first by (intro retry_call_again) simp_all
  have later: "\<forall>i<k. isl (fst (f (attempt_history f (hx @ [Sleep RETRY_WAIT]) i)))"
  proof (intro allI impI)
    fix i assume "i < k"
    then have "Suc i < Suc k" by simp
    with Suc.prems(2) have "isl (fst (f (attempt_history f h (Suc i))))" by blast
    then show "isl (fst (f (attempt_history f (hx @ [Sleep RETRY_WAIT]) i)))"
      by (simp add: first)
  qed
  have last: "f (attempt_history f (hx @ [Sleep RETRY_WAIT]) k) = (Inl e, h')"
    using Suc.prems(3) by (simp add: first)
  have "retry_call (Suc n) f (hx @ [Sleep RETRY_WAIT]) = (Inl (RetryError e), h')"
    using Suc.prems(1) by (intro Suc.IH later last) simp
  with step show ?case by simp
qed

text \<open>When every failed attempt leaves exactly one event, the attempts start at the
  histories \<open>h @ rounds ev i\<close>.\<close>

lemma attempt_history_rounds:
  "\<forall>i<k. \<exists>e. f (h @ rounds ev i) = (Inl e, h @ rounds ev i @ [ev]) \<Longrightarrow>
   attempt_history f h k = h @ rounds ev k"
proof (induction k arbitrary: h)
  case 0
  then show ?case by (simp add: rounds_0)
next
  case (Suc k)
  from Suc.prems have "\<exists>e. f (h @ rounds ev 0) = (Inl e, h @ rounds ev 0 @ [ev])" by blast
  then obtain e where first: "f h = (Inl e, h @ [ev])"
    by (auto simp: rounds_0)
  have "\<forall>i<k. \<exists>e. f ((h @ [ev, Sleep RETRY_WAIT]) @ rounds ev i) =
      (Inl e, (h @ [ev, Sleep RETRY_WAIT]) @ rounds ev i @ [ev])"
  proof (intro allI impI)
    fix i assume "i < k"
    then have "\<exists>e. f (h @ rounds ev (Suc i)) = (Inl e, h @ rounds ev (Suc i) @ [ev])"
      using Suc.prems by simp
    then show "\<exists>e. f ((h @ [ev, Sleep RETRY_WAIT]) @ rounds ev i) =
        (Inl e, (h @ [ev, Sleep RETRY_WAIT]) @ rounds ev i @ [ev])"
      by (simp add: rounds_Suc)
  qed
  then have "attempt_history f (h @ [ev, Sleep RETRY_WAIT]) k =
      (h @ [ev, Sleep RETRY_WAIT]) @ rounds ev k"
    by (rule Suc.IH)
  with first show ?case by (simp add: rounds_Suc)
qed

lemma retry_rounds_returns:
  assumes "k < 5"
    and "\<forall>i<k. \<exists>e. f (h @ rounds ev i) = (Inl e, h @ rounds ev i @ [ev])"
    and "f (h @ rounds ev k) = (Inr v, h')"
  shows "retry f h = (Inr v, h')"
proof -
  have hist: "\<And>i. i \<le> k \<Longrightarrow> attempt_history f h i = h @ rounds ev i"
    using assms(2) by (intro attempt_history_rounds) simp
  have "\<forall>i<k. isl (fst (f (attempt_history f h i)))"
  proof (intro allI impI)
    fix i assume i: "i < k"
    with assms(2) obtain e where "f (h @ rounds ev i) = (Inl e, h @ rounds ev i @ [ev])"
      by blast
    with i show "isl (fst (f (attempt_history f h i)))" by (simp add: hist)
  qed
  moreover have "f (attempt_history f h k) = (Inr v, h')"
    using assms(3) by (simp add: hist)
  ultimately show ?thesis
    unfolding retry_def using assms(1)
    by (intro retry_call_general_returns [where k = k]) (simp_all add: RETRY_ATTEMPTS_def)
qed

lemma retry_rounds_gives_up:
  assumes "\<forall>i<5. f (h @ rounds ev i) = (Inl (e i), h @ rounds ev i @ [ev])"
  shows "retry f h = (Inl (RetryError (e 4)), h @ rounds ev 4 @ [ev])"
proof -
  have hist: "\<And>i. i \<le> 4 \<Longrightarrow> attempt_history f h i = h @ rounds ev i"
    using assms by (intro attempt_history_rounds) auto
  have "\<forall>i<4. isl (fst (f (attempt_history f h i)))"
    using assms by (simp add: hist)
  moreover have "f (attempt_history f h 4) = (Inl (e 4), h @ rounds ev 4 @ [ev])"
    using assms by (simp add: hist)
  ultimately show ?thesis
    unfolding retry_def
    by (intro retry_call_general_gives_up [where k = 4]) (simp_all add: RETRY_ATTEMPTS_def)
qed

section \<open>Rounding to a double\<close>

lemma round_half_even_error: "\<bar>of_int (round_half_even x) - x\<bar> \<le> 1 / 2"
  unfolding round_half_even_def Let_def by (auto simp: abs_if) linarith+

lemma floor_log2_bounds:
  assumes "0 < a"
  shows "2 powi floor_log2 a \<le> a" and "a < 2 powi (floor_log2 a + 1)"
proof -
  obtain n d where q: "quotient_of a = (n, d)" by (cases "quotient_of a")
  then have d: "0 < d" and a: "a = of_int n / of_int d"
    by (simp_all add: quotient_of_denom_pos quotient_of_div)
  with assms have n: "0 < n"
    by (simp add: zero_less_divide_iff)
  define k where "k = bitlen n - bitlen d"
  have bn: "1 \<le> bitlen n" and bd: "1 \<le> bitlen d"
    using n d by (simp_all add: bitlen_alt_def)
  from bitlen_bounds [OF n] have n1: "(2::rat) powi (bitlen n - 1) \<le> of_int n"
    and n2: "of_int n < (2::rat) powi bitlen n"
    using bn
    by (simp_all add: power_int_def
        flip: of_int_power_le_of_int_cancel_iff of_int_power_less_of_int_cancel_iff)
  from bitlen_bounds [OF d] have d1: "(2::rat) powi (bitlen d - 1) \<le> of_int d"
    and d2: "of_int d < (2::rat) powi bitlen d"
    using bd
    by (simp_all add: power_int_def
        flip: of_int_power_le_of_int_cancel_iff of_int_power_less_of_int_cancel_iff)
  have up: "a < 2 powi (k + 1)"
  proof -
    have "a < 2 powi bitlen n / 2 powi (bitlen d - 1)"
      unfolding a using n2 d1 d n
      by (intro frac_less) simp_all
    also have "\<dots> = 2 powi (k + 1)"
      by (simp add: k_def flip: power_int_diff) (simp add: algebra_simps)
    finally show ?thesis .
  qed
  have lo: "2 powi (k - 1) \<le> a"
  proof -
    have "2 powi (bitlen n - 1) / 2 powi bitlen d \<le> a"
      unfolding a using n1 d2 d n
      by (intro frac_le) simp_all
    moreover have "(2::rat) powi (bitlen n - 1) / 2 powi bitlen d = 2 powi (k - 1)"
      by (simp add: k_def flip: power_int_diff) (simp add: algebra_simps)
    ultimately show ?thesis by simp
  qed
  have fl: "floor_log2 a = (if 2 powi k \<le> a then k else k - 1)"
    by (simp add: floor_log2_def q k_def Let_def)
  show "2 powi floor_log2 a \<le> a"
    using lo by (simp add: fl)
  show "a < 2 powi (floor_log2 a + 1)"
    using up by (simp add: fl not_le)
qed

text \<open>In the range of the normal doubles the rounded value is within half a unit in the
  last place, a relative error of at most \<open>1 / 2 ^ 53\<close>.\<close>

lemma round_magnitude_error:
  assumes "2 powi (- 1022) \<le> a"
  shows "\<bar>round_magnitude a - a\<bar> \<le> a / 2 ^ 53"
proof -
  have pos: "0 < a"
    using assms by (rule less_le_trans [rotated]) simp
  define l where "l = floor_log2 a"
  have lo: "2 powi l \<le> a" and up: "a < 2 powi (l + 1)"
    unfolding l_def using floor_log2_bounds [OF pos] by simp_all
  have "(2::rat) powi (- 1022) < 2 powi (l + 1)"
    using assms up by (rule le_less_trans)
  then have "- 1022 < l + 1"
    using power_int_increasing [of "l + 1" "- 1022" "2::rat"]
    by (cases "- 1022 < l + 1") simp_all
  then have e: "float_exponent a = l - 52"
    by (simp add: float_exponent_def l_def)
  define p :: rat where "p = 2 powi (l - 52)"
  define m where "m = round_half_even (a / p)"
  have r: "round_magnitude a = of_int m * p"
    using pos by (simp add: round_magnitude_def e m_def p_def)
  have p: "0 < p"
    by (simp add: p_def)
  have "of_int m * p - a = (of_int m - a / p) * p"
    using p by (simp add: left_diff_distrib)
  then have "\<bar>of_int m * p - a\<bar> = \<bar>of_int m - a / p\<bar> * p"
    using p by (simp add: abs_mult)
  also have "\<dots> \<le> 1 / 2 * p"
    unfolding m_def using p round_half_even_error [of "a / p"]
    by (intro mult_right_mono) simp_all
  also have "\<dots> = 2 powi l / 2 ^ 53"
    by (simp add: p_def power_int_diff)
  also have "\<dots> \<le> a / 2 ^ 53"
    using lo by (simp add: divide_right_mono)
  finally show ?thesis
    by (simp add: r)
qed

text \<open>The test for an infinity is the comparison with \<open>2 ^ 1024\<close>.\<close>

lemma overflow_threshold: "1024 < bitlen \<lfloor>r\<rfloor> \<longleftrightarrow> (2::rat) ^ 1024 \<le> r"
proof -
  have "bitlen \<lfloor>r\<rfloor> \<le> 1024 \<longleftrightarrow> \<lfloor>r\<rfloor> < 2 ^ 1024"
    by (simp add: bitlen_le_iff_power)
  also have "\<dots> \<longleftrightarrow> r < 2 ^ 1024"
    using floor_less_iff [of r "2 ^ 1024"] by simp
  finally show ?thesis by (simp add: not_le [symmetric] not_less)
qed

lemma round_to_double_normal:
  assumes "1 / 2 ^ 40 \<le> a" and "a \<le> 2 ^ 80"
  shows "\<exists>r. round_to_double False a = Finite r \<and> 0 < r \<and> \<bar>r - a\<bar> \<le> a / 2 ^ 53"
proof -
  have "(2::rat) powi (- 1022) \<le> 2 powi (- 40)"
    by (rule power_int_increasing) simp_all
  also have "\<dots> = 1 / 2 ^ 40"
    by (simp add: power_int_def field_simps)
  finally have "2 powi (- 1022) \<le> a"
    using assms(1) by simp
  then have err: "\<bar>round_magnitude a - a\<bar> \<le> a / 2 ^ 53"
    by (rule round_magnitude_error)
  have pos: "0 < a"
    using assms(1) by (rule less_le_trans [rotated]) simp
  have "a / 2 ^ 53 < a"
    using pos by (simp add: field_simps)
  with err have r_pos: "0 < round_magnitude a" and "round_magnitude a < 2 * a"
    by linarith+
  moreover have "2 * a \<le> 2 * 2 ^ 80"
    using assms(2) by simp
  moreover have "(2::rat) * 2 ^ 80 < 2 ^ 1024"
    using power_strict_increasing [of 81 1024 "2::rat"] by simp
  ultimately have "round_magnitude a < 2 ^ 1024"
    by linarith
  then have "\<not> 1024 < bitlen \<lfloor>round_magnitude a\<rfloor>"
    by (simp add: overflow_threshold)
  with r_pos err show ?thesis
    by (simp add: round_to_double_def Let_def)
qed

text \<open>Line 82 on a positive count and a positive \<^verbatim>\<open>int32\<close> ceiling: two roundings, of the
  quotient and of its product with 100.\<close>

lemma usage_percent_double:
  assumes "0 < current" "current < 2 ^ 63" "0 < mx" "mx < 2 ^ 31"
  shows "\<exists>r1 r2. compute_node_usage_percent current mx = Inr (FloatV (Finite r2))
     \<and> \<bar>r1 - of_int current / of_int mx\<bar> \<le> (of_int current / of_int mx) / 2 ^ 53
     \<and> \<bar>r2 - r1 * 100\<bar> \<le> (r1 * 100) / 2 ^ 53"
proof -
  define q :: rat where "q = of_int current / of_int mx"
  have c1: "(1::rat) \<le> of_int current" and c2: "of_int current \<le> (2::rat) ^ 63"
    using assms(1,2) by simp_all
  have m1: "(1::rat) \<le> of_int mx" and m2: "of_int mx \<le> (2::rat) ^ 31"
    using assms(3,4) by simp_all
  have q_lo: "1 / 2 ^ 31 \<le> q"
    unfolding q_def using c1 m1 m2 by (intro frac_le) simp_all
  have q_hi: "q \<le> 2 ^ 63"
  proof -
    have "q \<le> of_int current / 1"
      unfolding q_def using c1 m1 by (intro divide_left_mono) simp_all
    with c2 show ?thesis by simp
  qed
  have "(1::rat) / 2 ^ 40 \<le> 1 / 2 ^ 31"
    by simp
  with q_lo have "1 / 2 ^ 40 \<le> q" by linarith
  moreover have "q \<le> 2 ^ 80"
    using q_hi power_increasing [of 63 80 "2::rat"] by simp
  ultimately obtain r1 where r1: "round_to_double False q = Finite r1" "0 < r1"
    "\<bar>r1 - q\<bar> \<le> q / 2 ^ 53"
    using round_to_double_normal by blast
  have q_pos: "0 < q"
    using q_lo by (rule less_le_trans [rotated]) simp
  have "q / 2 ^ 53 \<le> q / 2"
    using q_pos by (intro divide_left_mono) simp_all
  with r1(3) have r1_lo: "q / 2 \<le> r1" and r1_hi: "r1 \<le> 2 * q"
    using q_pos by linarith+
  have "(1::rat) / 2 ^ 40 \<le> 1 / 2 ^ 31 / 2 * 100"
    by simp
  also have "\<dots> \<le> r1 * 100"
    using q_lo r1_lo by simp
  finally have a_lo: "1 / 2 ^ 40 \<le> r1 * 100" .
  have "r1 * 100 \<le> 2 * 2 ^ 63 * 100"
    using r1_hi q_hi by simp
  also have "\<dots> \<le> (2::rat) ^ 80"
    by simp
  finally have a_hi: "r1 * 100 \<le> 2 ^ 80" .
  from round_to_double_normal [OF a_lo a_hi] obtain r2 where
    r2: "round_to_double False (r1 * 100) = Finite r2" "\<bar>r2 - r1 * 100\<bar> \<le> (r1 * 100) / 2 ^ 53"
    by blast
  have sign: "\<not> ((current < 0) \<noteq> (mx < 0))" and nz: "mx \<noteq> 0"
    using assms by simp_all
  have abs_q: "\<bar>of_int current :: rat\<bar> / \<bar>of_int mx\<bar> = q"
    using assms(1,3) by (simp add: q_def)
  have div: "py_truediv current mx = Inr (Finite r1)"
    using nz sign r1(1) by (simp add: py_truediv_def abs_q)
  have mul: "py_float_mul (Finite r1) 100 = Finite r2"
    using r1(2) r2(1) by (simp add: py_float_mul_def)
  have "compute_node_usage_percent current mx = Inr (FloatV (Finite r2))"
    using nz div mul by (simp add: compute_node_usage_percent_def)
  with r1(3) r2(2) show ?thesis
    unfolding q_def by blast
qed



section \<open>RetryPolicy: attempts, delays and the final failure\<close>

text \<open>Claim C1, as the code has it. For any decorated function \<open>f\<close>: when the first \<open>k < 5\<close>
  attempts fail and attempt \<open>k + 1\<close> returns, the wrapped call returns that value in the
  history that attempt left, having run \<open>f\<close> at the \<open>k + 1\<close> histories
  \<open>attempt_history f h 0\<close> to \<open>attempt_history f h k\<close>, each failed attempt followed by a sleep
  of \<open>RETRY_WAIT\<close>; when five attempts fail, the wrapped call ends in the history of the
  fifth and raises \<open>RetryError\<close> carrying the fifth failure. For a single remote call this
  reads: exactly \<open>k + 1\<close>, or five, copies of the call in the history, with a sleep between
  any two.\<close>

theorem retry_policy:
  "(k < 5 \<and> (\<forall>i<k. isl (fst (f (attempt_history f h i)))) \<and>
      f (attempt_history f h k) = (Inr v, h')
      \<longrightarrow> retry f h = (Inr v, h'))
   \<and> ((\<forall>i<4. isl (fst (f (attempt_history f h i)))) \<and>
      f (attempt_history f h 4) = (Inl e5, h')
      \<longrightarrow> retry f h = (Inl (RetryError e5), h'))
   \<and> (k < 5 \<and> (\<forall>i<k. isl (answer (h @ rounds ev i))) \<and> answer (h @ rounds ev k) = Inr v
      \<longrightarrow> retry (invoke ev answer) h = (Inr v, h @ rounds ev k @ [ev]))
   \<and> ((\<forall>i<5. answer (h @ rounds ev i) = Inl (e i))
      \<longrightarrow> retry (invoke ev answer) h = (Inl (RetryError (e 4)), h @ rounds ev 4 @ [ev]))"
proof (intro conjI impI)
  assume "k < 5 \<and> (\<forall>i<k. isl (fst (f (attempt_history f h i)))) \<and>
      f (attempt_history f h k) = (Inr v, h')"
  then show "retry f h = (Inr v, h')"
    unfolding retry_def
    by (intro retry_call_general_returns [where k = k]) (simp_all add: RETRY_ATTEMPTS_def)
next
  assume "(\<forall>i<4. isl (fst (f (attempt_history f h i)))) \<and>
      f (attempt_history f h 4) = (Inl e5, h')"
  then show "retry f h = (Inl (RetryError e5), h')"
    unfolding retry_def
    by (intro retry_call_general_gives_up [where k = 4]) (simp_all add: RETRY_ATTEMPTS_def)
next
  assume a: "k < 5 \<and> (\<forall>i<k. isl (answer (h @ rounds ev i))) \<and>
      answer (h @ rounds ev k) = Inr v"
  have "\<forall>i<k. \<exists>e. invoke ev answer (h @ rounds ev i) = (Inl e, h @ rounds ev i @ [ev])"
  proof (intro allI impI)
    fix i assume "i < k"
    with a have "isl (answer (h @ rounds ev i))" by blast
    then show "\<exists>e. invoke ev answer (h @ rounds ev i) = (Inl e, h @ rounds ev i @ [ev])"
      by (auto simp: invoke_def isl_def)
  qed
  moreover have "invoke ev answer (h @ rounds ev k) = (Inr v, h @ rounds ev k @ [ev])"
    using a by (simp add: invoke_def)
  ultimately show "retry (invoke ev answer) h = (Inr v, h @ rounds ev k @ [ev])"
    using a by (intro retry_rounds_returns [where k = k and ev = ev]) simp_all
next
  assume a: "\<forall>i<5. answer (h @ rounds ev i) = Inl (e i)"
  then have "\<forall>i<5. invoke ev answer (h @ rounds ev i) = (Inl (e i), h @ rounds ev i @ [ev])"
    by (simp add: invoke_def)
  then show "retry (invoke ev answer) h = (Inl (RetryError (e 4)), h @ rounds ev 4 @ [ev])"
    by (rule retry_rounds_gives_up)
qed

theorem retry_policy_witness:
  "get_all_clusters_and_node_pools env_flaky_pools ''p1'' ''us-central1'' [] =
     (Inr [(''c1'', [''np1''])],
      [ListClusters ''projects/p1/locations/us-central1'',
       ListNodePools ''projects/p1/locations/us-central1/clusters/c1'', Sleep 2,
       ListClusters ''projects/p1/locations/us-central1'',
       ListNodePools ''projects/p1/locations/us-central1/clusters/c1'', Sleep 2,
       ListClusters ''projects/p1/locations/us-central1'',
       ListNodePools ''projects/p1/locations/us-central1/clusters/c1'']) \<and>
   get_node_pool_info env_np2_down ''p1'' ''us-central1'' ''c1'' ''np2'' [] =
     (Inl (RetryError (RemoteError ''unavailable'')),
      rounds (GetNodePool ''projects/p1/locations/us-central1/clusters/c1/nodePools/np2'') 4 @
      [GetNodePool ''projects/p1/locations/us-central1/clusters/c1/nodePools/np2'']) \<and>
   retry (invoke ev_p1 flaky_clusters) [] =
     (Inr [Cluster ''c1''], [ev_p1, Sleep 2, ev_p1, Sleep 2, ev_p1]) \<and>
   retry (invoke ev_p1 no_clusters) [] =
     (Inl (RetryError (RemoteError ''unavailable'')),
      [ev_p1, Sleep 2, ev_p1, Sleep 2, ev_p1, Sleep 2, ev_p1, Sleep 2, ev_p1])"
proof -
  let ?f = "get_all_clusters_and_node_pools_body env_flaky_pools ''p1'' ''us-central1''"
  let ?hist = "[ListClusters ''projects/p1/locations/us-central1'',
       ListNodePools ''projects/p1/locations/us-central1/clusters/c1'', Sleep 2,
       ListClusters ''projects/p1/locations/us-central1'',
       ListNodePools ''projects/p1/locations/us-central1/clusters/c1'', Sleep 2,
       ListClusters ''projects/p1/locations/us-central1'',
       ListNodePools ''projects/p1/locations/us-central1/clusters/c1'']"
  have f0: "isl (fst (?f (attempt_history ?f [] 0)))"
    by code_simp
  have f1: "isl (fst (?f (attempt_history ?f [] (Suc 0))))"
    by code_simp
  have f2: "?f (attempt_history ?f [] 2) = (Inr [(''c1'', [''np1''])], ?hist)"
    by code_simp
  have fails: "\<forall>i<2. isl (fst (?f (attempt_history ?f [] i)))"
  proof (intro allI impI)
    fix i :: nat assume "i < 2"
    then have "i = 0 \<or> i = Suc 0" by arith
    with f0 f1 show "isl (fst (?f (attempt_history ?f [] i)))" by blast
  qed
  have compound: "retry ?f [] = (Inr [(''c1'', [''np1''])], ?hist)"
    by (rule retry_policy [where k = 2, THEN conjunct1, THEN mp])
      (intro conjI fails f2, simp)
  let ?g = "get_node_pool_info_body env_np2_down ''p1'' ''us-central1'' ''c1'' ''np2''"
  let ?gev = "GetNodePool ''projects/p1/locations/us-central1/clusters/c1/nodePools/np2''"
  have g: "\<forall>i<4. isl (fst (?g (attempt_history ?g [] i)))"
  proof (intro allI impI)
    fix i :: nat assume "i < 4"
    then have "i = 0 \<or> i = Suc 0 \<or> i = Suc (Suc 0) \<or> i = Suc (Suc (Suc 0))" by arith
    moreover have "isl (fst (?g (attempt_history ?g [] 0)))"
      "isl (fst (?g (attempt_history ?g [] (Suc 0))))"
      "isl (fst (?g (attempt_history ?g [] (Suc (Suc 0)))))"
      "isl (fst (?g (attempt_history ?g [] (Suc (Suc (Suc 0))))))"
      by code_simp+
    ultimately show "isl (fst (?g (attempt_history ?g [] i)))" by blast
  qed
  have g4: "?g (attempt_history ?g [] 4) =
      (Inl (RemoteError ''unavailable''), rounds ?gev 4 @ [?gev])"
    by code_simp
  have gives_up: "retry ?g [] =
      (Inl (RetryError (RemoteError ''unavailable'')), rounds ?gev 4 @ [?gev])"
    by (rule retry_policy [THEN conjunct2, THEN conjunct1, THEN mp]) (intro conjI g g4)
  have r: "rounds ev_p1 0 = []" "rounds ev_p1 1 = [ev_p1, Sleep 2]"
    "rounds ev_p1 2 = [ev_p1, Sleep 2, ev_p1, Sleep 2]"
    "rounds ev_p1 4 = [ev_p1, Sleep 2, ev_p1, Sleep 2, ev_p1, Sleep 2, ev_p1, Sleep 2]"
    by (simp_all add: rounds_def RETRY_WAIT_def numeral_eq_Suc)
  have fl: "isl (flaky_clusters (rounds ev_p1 0))" "isl (flaky_clusters (rounds ev_p1 1))"
    "flaky_clusters (rounds ev_p1 2) = Inr [Cluster ''c1'']"
    unfolding r flaky_clusters_def by simp_all
  have "\<forall>i<2. isl (flaky_clusters ([] @ rounds ev_p1 i))"
    using fl by (simp add: less_2_cases_iff)
  with fl have ok: "retry (invoke ev_p1 flaky_clusters) [] =
      (Inr [Cluster ''c1''], [] @ rounds ev_p1 2 @ [ev_p1])"
    using retry_policy [where k = 2 and answer = flaky_clusters and h = "[]" and ev = ev_p1
        and v = "[Cluster ''c1'']", THEN conjunct2, THEN conjunct2, THEN conjunct1]
    by simp
  have "\<forall>i<5. no_clusters ([] @ rounds ev_p1 i) = Inl (RemoteError ''unavailable'')"
    by (simp add: no_clusters_def)
  then have ko: "retry (invoke ev_p1 no_clusters) [] =
      (Inl (RetryError (RemoteError ''unavailable'')), [] @ rounds ev_p1 4 @ [ev_p1])"
    using retry_policy [where answer = no_clusters and h = "[]" and ev = ev_p1
        and e = "\<lambda>i. RemoteError ''unavailable''", THEN conjunct2, THEN conjunct2,
        THEN conjunct2]
    by simp
  from compound gives_up ok ko show ?thesis
    by (simp add: r get_all_clusters_and_node_pools_def get_node_pool_info_def)
qed

text \<open>Claim C1 as the specification words it, with the final failure propagated unchanged,
  does not hold: a listing that is unavailable at every attempt ends in \<open>RetryError\<close>, not
  in the listing's own error.\<close>

theorem retry_unchanged_counterexample:
  "no_clusters (rounds ev_p1 4) = Inl (RemoteError ''unavailable'') \<and>
   fst (retry (invoke ev_p1 no_clusters) []) = Inl (RetryError (RemoteError ''unavailable'')) \<and>
   fst (retry (invoke ev_p1 no_clusters) []) \<noteq> Inl (RemoteError ''unavailable'')"
  by code_simp

section \<open>UtilizationCalculator: the percentage\<close>




text \<open>Claim C10. The percentage is not clamped: with more nodes than a positive \<^verbatim>\<open>int32\<close>
  ceiling (and a count below \<open>2 ^ 63\<close>) the stored double exceeds 100, and the third metric
  carries the stored value as it is.\<close>

theorem usage_percent_not_clamped:
  "0 < mx \<Longrightarrow> mx < current \<Longrightarrow> mx < 2 ^ 31 \<Longrightarrow> current < 2 ^ 63 \<Longrightarrow>
   (\<exists>info x. make_node_pool_info current mx = Inr info \<and>
      current_node_count info = current \<and> max_node_count info = mx \<and>
      node_usage_percent info = FloatV (Finite x) \<and> 100 < x \<and>
      last (make_metrics project_id region name pool info) =
        \<lparr>metric_name = ''gke.node_pool.node_usage_percent'',
         metric_value = node_usage_percent info,
         metric_tags = make_tags project_id region name pool\<rparr>)"
proof -
  assume pos: "0 < mx" and over: "mx < current" and m: "mx < 2 ^ 31" and c: "current < 2 ^ 63"
  define q :: rat where "q = of_int current / of_int mx"
  from pos over have "0 < current" by simp
  with pos m c obtain r1 r2 where
    p: "compute_node_usage_percent current mx = Inr (FloatV (Finite r2))" and
    e1: "\<bar>r1 - q\<bar> \<le> q / 2 ^ 53" and e2: "\<bar>r2 - r1 * 100\<bar> \<le> (r1 * 100) / 2 ^ 53"
    unfolding q_def using usage_percent_double [of current mx] by blast
  have mx1: "(0::rat) < of_int mx" and mx2: "of_int mx \<le> (2::rat) ^ 31"
    using pos m by simp_all
  from over have "mx + 1 \<le> current" by simp
  then have "(of_int (mx + 1) :: rat) \<le> of_int current"
    by (simp only: of_int_le_iff)
  then have "of_int mx + 1 \<le> (of_int current :: rat)"
    by simp
  then have "(of_int mx + 1) / of_int mx \<le> q"
    unfolding q_def using mx1 by (simp add: divide_right_mono)
  moreover have "(of_int mx + 1) / of_int mx = 1 + 1 / (of_int mx :: rat)"
    using mx1 by (simp add: field_simps)
  moreover have "1 / 2 ^ 31 \<le> 1 / (of_int mx :: rat)"
    using mx1 mx2 by (intro divide_left_mono) simp_all
  ultimately have q: "1 + 1 / 2 ^ 31 \<le> q"
    by linarith
  from e1 e2 q have "100 < r2"
    unfolding abs_le_iff by (simp add: field_simps)
  with p show ?thesis
    by (simp add: make_node_pool_info_def make_metrics_def Let_def)
qed

theorem usage_percent_not_clamped_witness:
  "\<exists>info x. make_node_pool_info 12 10 = Inr info \<and>
      current_node_count info = 12 \<and> max_node_count info = 10 \<and>
      node_usage_percent info = FloatV (Finite x) \<and> 100 < x \<and>
      last (make_metrics ''p1'' ''us-central1'' ''c1'' ''np1'' info) =
        \<lparr>metric_name = ''gke.node_pool.node_usage_percent'',
         metric_value = node_usage_percent info,
         metric_tags = make_tags ''p1'' ''us-central1'' ''c1'' ''np1''\<rparr>"
proof -
  have "0 < (10::int)" "(10::int) < 12" "(10::int) < 2 ^ 31" "(12::int) < 2 ^ 63"
    by simp_all
  then show ?thesis
    by (rule usage_percent_not_clamped)
qed

section \<open>Entry block: missing configuration\<close>

text \<open>Claim C9. With \<^verbatim>\<open>GCP_PROJECT_IDS\<close> unset or empty the program prints the
  configuration message and returns without an error; the history gains that one line and
  no remote call.\<close>

theorem no_project_ids_exits_cleanly:
  "getenv env ''GCP_PROJECT_IDS'' = None \<or> getenv env ''GCP_PROJECT_IDS'' = Some [] \<Longrightarrow>
   main_block env h =
     (Inr (),
      h @ [Print ''No project IDs found. Set the GCP_PROJECT_IDS environment variable.''])
   \<and> filter is_remote_call (snd (main_block env h)) = filter is_remote_call h"
  by (auto simp: main_block_def act_print_def)

theorem no_project_ids_exits_cleanly_witness:
  "getenv env_unset ''GCP_PROJECT_IDS'' = None \<and>
   main_block env_unset [] =
     (Inr (), [Print ''No project IDs found. Set the GCP_PROJECT_IDS environment variable.''])"
  using no_project_ids_exits_cleanly [of env_unset "[]"]
  by (simp add: env_unset_def env_p1_def)

section \<open>InstanceGroupCounter: locators and counts\<close>

lemma parse_too_short:
  "length (py_split CHR ''/'' url) < 11 \<Longrightarrow> parse_instance_group_url url = Inl IndexError"
  by (simp add: parse_instance_group_url_def py_index_def Let_def)

lemma parse_long_enough:
  "11 \<le> length (py_split CHR ''/'' url) \<Longrightarrow>
   parse_instance_group_url url =
     Inr (py_split CHR ''/'' url ! 6, py_split CHR ''/'' url ! 8, py_split CHR ''/'' url ! 10)"
  by (simp add: parse_instance_group_url_def py_index_def Let_def)

lemma count_body_parse_error:
  "parse_instance_group_url url = Inl e \<Longrightarrow>
   get_instance_group_node_count_body env url h = (Inl e, h)"
  by (simp add: get_instance_group_node_count_body_def act_bind_def act_lift_def)

lemma count_body_parsed:
  "parse_instance_group_url url = Inr (project, zone, instance_group) \<Longrightarrow>
   get_instance_group_node_count_body env url h =
     (case list_instances env h project zone instance_group of
        Inl e \<Rightarrow> Inl e
      | Inr response \<Rightarrow> Inr (count_items response),
      h @ [ListInstances project zone instance_group])"
  by (simp add: get_instance_group_node_count_body_def act_bind_def act_lift_def invoke_def
      act_return_def split: sum.splits)

lemma count_items_length:
  "count_items response = (case response of None \<Rightarrow> 0 | Some items \<Rightarrow> int (length items))"
  by (simp add: count_items_def split: option.splits)

text \<open>Claim C5, as the code has it. A locator with fewer than 11 slash-separated parts
  makes every attempt raise \<open>IndexError\<close> before any remote call, and the wrapped call
  sleeps four times and raises \<open>RetryError\<close>, still without a remote call. A locator with
  11 parts or more, also one that is too long, is read at the slots 6, 8 and 10 and the
  listing call is made with them.\<close>

theorem locator_parsing:
  "(length (py_split CHR ''/'' url) < 11 \<longrightarrow>
      get_instance_group_node_count_body env url h = (Inl IndexError, h) \<and>
      get_instance_group_node_count env url h =
        (Inl (RetryError IndexError), h @ replicate 4 (Sleep 2)))
   \<and> (11 \<le> length (py_split CHR ''/'' url) \<longrightarrow>
      parse_instance_group_url url =
        Inr (py_split CHR ''/'' url ! 6, py_split CHR ''/'' url ! 8,
             py_split CHR ''/'' url ! 10) \<and>
      snd (get_instance_group_node_count_body env url h) =
        h @ [ListInstances (py_split CHR ''/'' url ! 6) (py_split CHR ''/'' url ! 8)
               (py_split CHR ''/'' url ! 10)])"
proof (intro conjI impI)
  assume short: "length (py_split CHR ''/'' url) < 11"
  then have body: "\<And>h. get_instance_group_node_count_body env url h = (Inl IndexError, h)"
    by (simp add: parse_too_short count_body_parse_error)
  show "get_instance_group_node_count_body env url h = (Inl IndexError, h)"
    by (rule body)
  have "retry_call 1 (get_instance_group_node_count_body env url) h =
      (Inl (RetryError IndexError), h @ replicate 4 (Sleep RETRY_WAIT))"
    by (rule retry_call_pure_failure [OF body]) (simp add: RETRY_ATTEMPTS_def)
  then show "get_instance_group_node_count env url h =
      (Inl (RetryError IndexError), h @ replicate 4 (Sleep 2))"
    by (simp add: get_instance_group_node_count_def retry_def RETRY_WAIT_def)
next
  assume long: "11 \<le> length (py_split CHR ''/'' url)"
  then show p: "parse_instance_group_url url =
      Inr (py_split CHR ''/'' url ! 6, py_split CHR ''/'' url ! 8, py_split CHR ''/'' url ! 10)"
    by (rule parse_long_enough)
  show "snd (get_instance_group_node_count_body env url h) =
      h @ [ListInstances (py_split CHR ''/'' url ! 6) (py_split CHR ''/'' url ! 8)
             (py_split CHR ''/'' url ! 10)]"
    by (simp add: count_body_parsed [OF p])
qed

theorem locator_parsing_witness:
  "length (py_split CHR ''/'' url_short) < 11 \<and> 11 \<le> length (py_split CHR ''/'' url1) \<and>
   get_instance_group_node_count env_p1 url_short [] =
     (Inl (RetryError IndexError), [Sleep 2, Sleep 2, Sleep 2, Sleep 2]) \<and>
   parse_instance_group_url url1 = Inr (''p1'', ''us-central1-a'', ''ig1'') \<and>
   snd (get_instance_group_node_count_body env_p1 url1 []) =
     [ListInstances ''p1'' ''us-central1-a'' ''ig1'']"
proof -
  have short: "length (py_split CHR ''/'' url_short) < 11"
    by code_simp
  have long: "11 \<le> length (py_split CHR ''/'' url1)"
    by code_simp
  have slots: "py_split CHR ''/'' url1 ! 6 = ''p1''"
    "py_split CHR ''/'' url1 ! 8 = ''us-central1-a''" "py_split CHR ''/'' url1 ! 10 = ''ig1''"
    by code_simp+
  have sleeps: "replicate 4 (Sleep 2) = [Sleep 2, Sleep 2, Sleep 2, Sleep 2]"
    by code_simp
  show ?thesis
    using locator_parsing [of url_short env_p1 "[]"] locator_parsing [of url1 env_p1 "[]"]
      short long
    by (simp add: slots sleeps)
qed

text \<open>Claim C5 as the specification words it, a parsing error for every locator of the
  wrong depth, does not hold: a locator of 12 parts is read at the same slots and the remote
  listing is called.\<close>

theorem locator_depth_counterexample:
  "length (py_split CHR ''/'' url_long) = 12 \<and>
   parse_instance_group_url url_long = Inr (''p1'', ''us-central1-a'', ''ig1'') \<and>
   get_instance_group_node_count_body env_p1 url_long [] =
     (Inr 3, [ListInstances ''p1'' ''us-central1-a'' ''ig1''])"
  by code_simp

text \<open>Claim C6. When the listing answers, the count is the number of returned instances,
  and 0 when the list is empty or absent: the result is always an integer. This holds for
  the answer to the first attempt and for whichever attempt the wrapped call returns from.\<close>

theorem instance_count_never_null:
  "(parse_instance_group_url url = Inr (project, zone, instance_group) \<and>
    list_instances env h project zone instance_group = Inr response \<longrightarrow>
      get_instance_group_node_count env url h =
        (Inr (case response of None \<Rightarrow> 0 | Some items \<Rightarrow> int (length items)),
         h @ [ListInstances project zone instance_group]))
   \<and> (get_instance_group_node_count env url h = (Inr n, h') \<longrightarrow>
      (\<exists>project zone instance_group h1 response.
         parse_instance_group_url url = Inr (project, zone, instance_group) \<and>
         list_instances env h1 project zone instance_group = Inr response \<and>
         h' = h1 @ [ListInstances project zone instance_group] \<and>
         n = (case response of None \<Rightarrow> 0 | Some items \<Rightarrow> int (length items))))"
proof (intro conjI impI)
  assume a: "parse_instance_group_url url = Inr (project, zone, instance_group) \<and>
    list_instances env h project zone instance_group = Inr response"
  then have "get_instance_group_node_count_body env url h =
      (Inr (count_items response), h @ [ListInstances project zone instance_group])"
    by (simp add: count_body_parsed)
  then show "get_instance_group_node_count env url h =
      (Inr (case response of None \<Rightarrow> 0 | Some items \<Rightarrow> int (length items)),
       h @ [ListInstances project zone instance_group])"
    by (simp add: get_instance_group_node_count_def retry_Inr count_items_length)
next
  assume "get_instance_group_node_count env url h = (Inr n, h')"
  then obtain h1 where b: "get_instance_group_node_count_body env url h1 = (Inr n, h')"
    unfolding get_instance_group_node_count_def retry_def by (blast dest: retry_call_Inr_D)
  show "\<exists>project zone instance_group h1 response.
         parse_instance_group_url url = Inr (project, zone, instance_group) \<and>
         list_instances env h1 project zone instance_group = Inr response \<and>
         h' = h1 @ [ListInstances project zone instance_group] \<and>
         n = (case response of None \<Rightarrow> 0 | Some items \<Rightarrow> int (length items))"
  proof (cases "parse_instance_group_url url")
    case (Inl e)
    with b show ?thesis by (simp add: count_body_parse_error)
  next
    case (Inr t)
    obtain project zone instance_group where t: "t = (project, zone, instance_group)"
      by (cases t) auto
    from b Inr t obtain response where
      "list_instances env h1 project zone instance_group = Inr response"
      "h' = h1 @ [ListInstances project zone instance_group]" "n = count_items response"
      by (auto simp: count_body_parsed split: sum.splits)
    with Inr t show ?thesis by (auto simp: count_items_length)
  qed
qed

theorem instance_count_never_null_witness:
  "parse_instance_group_url url1 = Inr (''p1'', ''us-central1-a'', ''ig1'') \<and>
   list_instances env_no_items [] ''p1'' ''us-central1-a'' ''ig1'' = Inr None \<and>
   get_instance_group_node_count env_p1 url1 [] =
     (Inr 3, [ListInstances ''p1'' ''us-central1-a'' ''ig1'']) \<and>
   get_instance_group_node_count env_no_items url1 [] =
     (Inr 0, [ListInstances ''p1'' ''us-central1-a'' ''ig1''])"
proof -
  have p: "parse_instance_group_url url1 = Inr (''p1'', ''us-central1-a'', ''ig1'')"
    by code_simp
  have l3: "list_instances env_p1 [] ''p1'' ''us-central1-a'' ''ig1'' =
      Inr (Some [''vm-a'', ''vm-b'', ''vm-c''])"
    by (simp add: env_p1_def)
  have l0: "list_instances env_no_items [] ''p1'' ''us-central1-a'' ''ig1'' = Inr None"
    by (simp add: env_no_items_def)
  show ?thesis
    using p l0 l3
      instance_count_never_null [of url1 "''p1''" "''us-central1-a''" "''ig1''" env_p1 "[]"
        "Some [''vm-a'', ''vm-b'', ''vm-c'']"]
      instance_count_never_null [of url1 "''p1''" "''us-central1-a''" "''ig1''" env_no_items
        "[]" None]
    by simp
qed

section \<open>NodePoolResolver: the sum over instance groups\<close>

lemma act_map_Cons_Inr:
  "act_map f (x # xs) h = (Inr ys, h') \<Longrightarrow>
   \<exists>y ys' h1. f x h = (Inr y, h1) \<and> act_map f xs h1 = (Inr ys', h') \<and> ys = y # ys'"
  by (auto simp: act_bind_def act_return_def split: prod.splits sum.splits)

lemma act_map_Cons_intro:
  "f x h = (Inr y, h1) \<Longrightarrow> act_map f xs h1 = (Inr ys, h') \<Longrightarrow>
   act_map f (x # xs) h = (Inr (y # ys), h')"
  by (simp add: act_bind_def act_return_def)

lemma act_map_length: "act_map f xs h = (Inr ys, h') \<Longrightarrow> length ys = length xs"
proof (induction xs arbitrary: h ys)
  case Nil
  then show ?case by (simp add: act_return_def)
next
  case (Cons x xs)
  from act_map_Cons_Inr [OF Cons.prems] obtain y ys' h1 where
    "act_map f xs h1 = (Inr ys', h')" and "ys = y # ys'"
    by blast
  with Cons.IH show ?case by simp
qed

lemma sum_node_counts_act_map:
  "act_map (get_instance_group_node_count env) urls h = (Inr counts, h') \<Longrightarrow>
   sum_node_counts env urls acc h = (Inr (acc + sum_list counts), h')"
proof (induction urls arbitrary: acc h counts)
  case Nil
  then show ?case by (simp add: act_return_def)
next
  case (Cons url urls)
  from act_map_Cons_Inr [OF Cons.prems] obtain n ns h1 where
    first: "get_instance_group_node_count env url h = (Inr n, h1)" and
    others: "act_map (get_instance_group_node_count env) urls h1 = (Inr ns, h')" and
    counts: "counts = n # ns"
    by blast
  have "sum_node_counts env urls (acc + n) h1 = (Inr (acc + n + sum_list ns), h')"
    using others by (rule Cons.IH)
  with first counts show ?case
    by (simp add: act_bind_def add.assoc)
qed

lemma sum_node_counts_returns:
  "sum_node_counts env urls acc h = (Inr the_sum, h') \<Longrightarrow>
   \<exists>counts. act_map (get_instance_group_node_count env) urls h = (Inr counts, h') \<and>
     the_sum = acc + sum_list counts"
proof (induction urls arbitrary: acc h)
  case Nil
  then show ?case by (simp add: act_return_def)
next
  case (Cons url urls)
  from Cons.prems obtain n h1 where
    first: "get_instance_group_node_count env url h = (Inr n, h1)" and
    rest: "sum_node_counts env urls (acc + n) h1 = (Inr the_sum, h')"
    by (auto simp: act_bind_def split: prod.splits sum.splits)
  from Cons.IH [OF rest] obtain ns where
    ns: "act_map (get_instance_group_node_count env) urls h1 = (Inr ns, h')" and
    the_sum: "the_sum = acc + n + sum_list ns"
    by blast
  from first ns have "act_map (get_instance_group_node_count env) (url # urls) h =
      (Inr (n # ns), h')"
    by (rule act_map_Cons_intro)
  with the_sum show ?case by auto
qed

lemma get_node_pool_info_body_sums:
  assumes "get_node_pool env h (node_pool_path project_id region name pool) = Inr np"
    and "act_map (get_instance_group_node_count env) (instance_group_urls np)
           (h @ [GetNodePool (node_pool_path project_id region name pool)]) = (Inr counts, h')"
    and "compute_node_usage_percent (sum_list counts) (autoscaling_max_node_count np) =
           Inr percent"
  shows "get_node_pool_info_body env project_id region name pool h =
     (Inr \<lparr>current_node_count = sum_list counts,
           max_node_count = autoscaling_max_node_count np,
           node_usage_percent = percent\<rparr>,
      h')"
proof -
  have "sum_node_counts env (instance_group_urls np) 0
          (h @ [GetNodePool (node_pool_path project_id region name pool)]) =
        (Inr (0 + sum_list counts), h')"
    using assms(2) by (rule sum_node_counts_act_map)
  with assms(1,3) show ?thesis
    by (simp add: get_node_pool_info_body_def act_bind_def invoke_def act_lift_def
        make_node_pool_info_def)
qed

lemma get_node_pool_info_body_returns:
  assumes "get_node_pool_info_body env project_id region name pool h = (Inr info, h')"
  shows "\<exists>np counts.
     get_node_pool env h (node_pool_path project_id region name pool) = Inr np \<and>
     act_map (get_instance_group_node_count env) (instance_group_urls np)
       (h @ [GetNodePool (node_pool_path project_id region name pool)]) = (Inr counts, h') \<and>
     current_node_count info = sum_list counts \<and>
     max_node_count info = autoscaling_max_node_count np \<and>
     compute_node_usage_percent (sum_list counts) (autoscaling_max_node_count np) =
       Inr (node_usage_percent info)"
proof -
  let ?path = "node_pool_path project_id region name pool"
  from assms obtain np the_sum where
    np: "get_node_pool env h ?path = Inr np" and
    sum: "sum_node_counts env (instance_group_urls np) 0 (h @ [GetNodePool ?path]) =
      (Inr the_sum, h')" and
    info: "make_node_pool_info the_sum (autoscaling_max_node_count np) = Inr info"
    by (auto simp: get_node_pool_info_body_def act_bind_def invoke_def act_lift_def
        split: prod.splits sum.splits)
  from sum_node_counts_returns [OF sum] obtain counts where
    counts: "act_map (get_instance_group_node_count env) (instance_group_urls np)
      (h @ [GetNodePool ?path]) = (Inr counts, h')" and
    the_sum: "the_sum = sum_list counts"
    by auto
  from info have "current_node_count info = the_sum"
    "max_node_count info = autoscaling_max_node_count np"
    "compute_node_usage_percent the_sum (autoscaling_max_node_count np) =
      Inr (node_usage_percent info)"
    by (auto simp: make_node_pool_info_def split: sum.splits)
  with np counts the_sum show ?thesis by blast
qed

lemma usage_percent_no_nodes:
  "compute_node_usage_percent 0 mx =
     Inr (if mx = 0 then IntV 0 else if 0 < mx then FloatV (Finite 0) else FloatV NegZero)"
  by (simp add: compute_node_usage_percent_def py_truediv_def py_float_mul_def
      round_to_double_def round_magnitude_def Let_def)

text \<open>Claim C4. When the node pool is fetched and every instance group is counted, the
  record holds the sum of the counts, the pool's ceiling and the percentage that line 82
  computes from the two. A pool without instance groups gives a count of 0 and a percentage
  of 0, without an error. Whenever the resolver returns a record, from whichever attempt,
  the record is made this way from the answers of that attempt. The pool of the scenario,
  with groups of 3 and 4 instances and a ceiling of 10, is the witness: 7, 10 and 70.\<close>

theorem node_pool_info_sums_groups:
  "(get_node_pool env h (node_pool_path project_id region name pool) = Inr np \<and>
    act_map (get_instance_group_node_count env) (instance_group_urls np)
      (h @ [GetNodePool (node_pool_path project_id region name pool)]) = (Inr counts, h') \<and>
    compute_node_usage_percent (sum_list counts) (autoscaling_max_node_count np) = Inr percent
    \<longrightarrow>
    get_node_pool_info env project_id region name pool h =
      (Inr \<lparr>current_node_count = sum_list counts,
            max_node_count = autoscaling_max_node_count np,
            node_usage_percent = percent\<rparr>,
       h'))
   \<and> (get_node_pool env h (node_pool_path project_id region name pool) = Inr np \<and>
      instance_group_urls np = [] \<longrightarrow>
      get_node_pool_info env project_id region name pool h =
        (Inr \<lparr>current_node_count = 0,
              max_node_count = autoscaling_max_node_count np,
              node_usage_percent =
                (if autoscaling_max_node_count np = 0 then IntV 0
                 else if 0 < autoscaling_max_node_count np then FloatV (Finite 0)
                 else FloatV NegZero)\<rparr>,
         h @ [GetNodePool (node_pool_path project_id region name pool)]))
   \<and> (get_node_pool_info env project_id region name pool h = (Inr info, h') \<longrightarrow>
      (\<exists>h1 np1 counts1.
         get_node_pool env h1 (node_pool_path project_id region name pool) = Inr np1 \<and>
         act_map (get_instance_group_node_count env) (instance_group_urls np1)
           (h1 @ [GetNodePool (node_pool_path project_id region name pool)]) =
           (Inr counts1, h') \<and>
         current_node_count info = sum_list counts1 \<and>
         max_node_count info = autoscaling_max_node_count np1 \<and>
         compute_node_usage_percent (sum_list counts1) (autoscaling_max_node_count np1) =
           Inr (node_usage_percent info)))"
proof (intro conjI impI)
  assume "get_node_pool env h (node_pool_path project_id region name pool) = Inr np \<and>
    act_map (get_instance_group_node_count env) (instance_group_urls np)
      (h @ [GetNodePool (node_pool_path project_id region name pool)]) = (Inr counts, h') \<and>
    compute_node_usage_percent (sum_list counts) (autoscaling_max_node_count np) = Inr percent"
  then show "get_node_pool_info env project_id region name pool h =
      (Inr \<lparr>current_node_count = sum_list counts,
            max_node_count = autoscaling_max_node_count np,
            node_usage_percent = percent\<rparr>,
       h')"
    unfolding get_node_pool_info_def
    by (intro retry_Inr get_node_pool_info_body_sums) simp_all
next
  assume a: "get_node_pool env h (node_pool_path project_id region name pool) = Inr np \<and>
    instance_group_urls np = []"
  then have "act_map (get_instance_group_node_count env) (instance_group_urls np)
      (h @ [GetNodePool (node_pool_path project_id region name pool)]) =
      (Inr [], h @ [GetNodePool (node_pool_path project_id region name pool)])"
    by (simp add: act_return_def)
  moreover have "compute_node_usage_percent (sum_list []) (autoscaling_max_node_count np) =
      Inr (if autoscaling_max_node_count np = 0 then IntV 0
           else if 0 < autoscaling_max_node_count np then FloatV (Finite 0)
           else FloatV NegZero)"
    by (simp add: usage_percent_no_nodes)
  ultimately have "get_node_pool_info_body env project_id region name pool h =
      (Inr \<lparr>current_node_count = sum_list [],
            max_node_count = autoscaling_max_node_count np,
            node_usage_percent =
              (if autoscaling_max_node_count np = 0 then IntV 0
               else if 0 < autoscaling_max_node_count np then FloatV (Finite 0)
               else FloatV NegZero)\<rparr>,
       h @ [GetNodePool (node_pool_path project_id region name pool)])"
    using a by (intro get_node_pool_info_body_sums) simp_all
  then show "get_node_pool_info env project_id region name pool h =
      (Inr \<lparr>current_node_count = 0,
            max_node_count = autoscaling_max_node_count np,
            node_usage_percent =
              (if autoscaling_max_node_count np = 0 then IntV 0
               else if 0 < autoscaling_max_node_count np then FloatV (Finite 0)
               else FloatV NegZero)\<rparr>,
       h @ [GetNodePool (node_pool_path project_id region name pool)])"
    unfolding get_node_pool_info_def by (intro retry_Inr) simp
next
  assume "get_node_pool_info env project_id region name pool h = (Inr info, h')"
  then obtain h1 where
    "get_node_pool_info_body env project_id region name pool h1 = (Inr info, h')"
    unfolding get_node_pool_info_def retry_def by (blast dest: retry_call_Inr_D)
  from get_node_pool_info_body_returns [OF this]
  show "\<exists>h1 np1 counts1.
      get_node_pool env h1 (node_pool_path project_id region name pool) = Inr np1 \<and>
      act_map (get_instance_group_node_count env) (instance_group_urls np1)
        (h1 @ [GetNodePool (node_pool_path project_id region name pool)]) =
        (Inr counts1, h') \<and>
      current_node_count info = sum_list counts1 \<and>
      max_node_count info = autoscaling_max_node_count np1 \<and>
      compute_node_usage_percent (sum_list counts1) (autoscaling_max_node_count np1) =
        Inr (node_usage_percent info)"
    by blast
qed

theorem node_pool_info_sums_groups_witness:
  "get_node_pool env_p1 [] (node_pool_path ''p1'' ''us-central1'' ''c1'' ''np1'') =
     Inr \<lparr>instance_group_urls = [url1, url2], autoscaling_max_node_count = 10\<rparr> \<and>
   act_map (get_instance_group_node_count env_p1) [url1, url2]
     [GetNodePool (node_pool_path ''p1'' ''us-central1'' ''c1'' ''np1'')] =
     (Inr [3, 4],
      [GetNodePool (node_pool_path ''p1'' ''us-central1'' ''c1'' ''np1''),
       ListInstances ''p1'' ''us-central1-a'' ''ig1'',
       ListInstances ''p1'' ''us-central1-b'' ''ig2'']) \<and>
   get_node_pool_info env_p1 ''p1'' ''us-central1'' ''c1'' ''np1'' [] =
     (Inr \<lparr>current_node_count = 7, max_node_count = 10,
           node_usage_percent = FloatV (Finite 70)\<rparr>,
      [GetNodePool (node_pool_path ''p1'' ''us-central1'' ''c1'' ''np1''),
       ListInstances ''p1'' ''us-central1-a'' ''ig1'',
       ListInstances ''p1'' ''us-central1-b'' ''ig2'']) \<and>
   get_node_pool_info env_np2_down ''p1'' ''us-central1'' ''c1'' ''np1'' [] =
     (Inr \<lparr>current_node_count = 0, max_node_count = 10,
           node_usage_percent = FloatV (Finite 0)\<rparr>,
      [GetNodePool (node_pool_path ''p1'' ''us-central1'' ''c1'' ''np1'')])"
proof -
  let ?path = "node_pool_path ''p1'' ''us-central1'' ''c1'' ''np1''"
  let ?np = "\<lparr>instance_group_urls = [url1, url2], autoscaling_max_node_count = 10\<rparr>"
  let ?bare = "\<lparr>instance_group_urls = [], autoscaling_max_node_count = 10\<rparr>"
  let ?h' = "[GetNodePool ?path, ListInstances ''p1'' ''us-central1-a'' ''ig1'',
      ListInstances ''p1'' ''us-central1-b'' ''ig2'']"
  have g: "get_node_pool env_p1 [] ?path = Inr ?np"
    by code_simp
  have m: "act_map (get_instance_group_node_count env_p1) [url1, url2] [GetNodePool ?path] =
      (Inr [3, 4], ?h')"
    by code_simp
  have pc: "compute_node_usage_percent 7 10 = Inr (FloatV (Finite 70))"
    by code_simp
  have g0: "get_node_pool env_np2_down [] ?path = Inr ?bare"
    by code_simp
  have "get_node_pool env_p1 [] ?path = Inr ?np \<and>
      act_map (get_instance_group_node_count env_p1) (instance_group_urls ?np)
        ([] @ [GetNodePool ?path]) = (Inr [3, 4], ?h') \<and>
      compute_node_usage_percent (sum_list [3, 4]) (autoscaling_max_node_count ?np) =
        Inr (FloatV (Finite 70))"
    using g m pc by simp
  then have "get_node_pool_info env_p1 ''p1'' ''us-central1'' ''c1'' ''np1'' [] =
      (Inr \<lparr>current_node_count = sum_list [3, 4],
            max_node_count = autoscaling_max_node_count ?np,
            node_usage_percent = FloatV (Finite 70)\<rparr>, ?h')"
    by (rule node_pool_info_sums_groups [THEN conjunct1, THEN mp])
  then have a: "get_node_pool_info env_p1 ''p1'' ''us-central1'' ''c1'' ''np1'' [] =
      (Inr \<lparr>current_node_count = 7, max_node_count = 10,
            node_usage_percent = FloatV (Finite 70)\<rparr>, ?h')"
    by simp
  have "get_node_pool env_np2_down [] ?path = Inr ?bare \<and> instance_group_urls ?bare = []"
    using g0 by simp
  then have "get_node_pool_info env_np2_down ''p1'' ''us-central1'' ''c1'' ''np1'' [] =
      (Inr \<lparr>current_node_count = 0,
            max_node_count = autoscaling_max_node_count ?bare,
            node_usage_percent =
              (if autoscaling_max_node_count ?bare = 0 then IntV 0
               else if 0 < autoscaling_max_node_count ?bare then FloatV (Finite 0)
               else FloatV NegZero)\<rparr>,
       [] @ [GetNodePool ?path])"
    by (rule node_pool_info_sums_groups [THEN conjunct2, THEN conjunct1, THEN mp])
  then have b: "get_node_pool_info env_np2_down ''p1'' ''us-central1'' ''c1'' ''np1'' [] =
      (Inr \<lparr>current_node_count = 0, max_node_count = 10,
            node_usage_percent = FloatV (Finite 0)\<rparr>, [GetNodePool ?path])"
    by simp
  from g m a b show ?thesis by (intro conjI)
qed

section \<open>MetricsEmitter: three gauges, one batch\<close>

lemma send_body_result:
  "send_metrics_to_newrelic_body env metrics_client project_id region name pool info h =
     (case send_failure
        (send_batch env h metrics_client (make_metrics project_id region name pool info)) of
        Some e \<Rightarrow> (Inl e, h @ [SendBatch (make_metrics project_id region name pool info)])
      | None \<Rightarrow>
          (Inr (),
           h @ [SendBatch (make_metrics project_id region name pool info),
                Print ''Sent metrics successfully!'']))"
  by (simp add: send_metrics_to_newrelic_body_def Let_def act_bind_def invoke_def
      raise_for_status_def act_return_def act_raise_def act_print_def send_failure_def
      split: sum.splits)

lemma send_failure_None:
  "send_failure answer = None \<longleftrightarrow> (\<exists>status. answer = Inr status \<and> 200 \<le> status \<and> status < 300)"
  by (auto simp: send_failure_def split: sum.splits)

text \<open>Claim C7. The emitter builds exactly three gauges, for the current count, the
  ceiling and the percentage, each with the same four tags; every attempt sends them in one
  batch, which is its only remote call. A status outside 200 to 299 makes the attempt fail
  with \<open>HTTPError\<close>, as does an error of the call itself, and the decorated emitter then
  tries again: when all five attempts fail it raises \<open>RetryError\<close> around the fifth failure,
  after five batches. It returns normally only from an attempt whose batch was answered with
  a status from 200 to 299.\<close>

theorem emitter_three_gauges_one_batch:
  "length (make_metrics project_id region name pool info) = 3
   \<and> map metric_name (make_metrics project_id region name pool info) =
       [''gke.node_pool.current_node_count'', ''gke.node_pool.max_node_count'',
        ''gke.node_pool.node_usage_percent'']
   \<and> map metric_value (make_metrics project_id region name pool info) =
       [IntV (current_node_count info), IntV (max_node_count info), node_usage_percent info]
   \<and> (\<forall>m \<in> set (make_metrics project_id region name pool info).
         metric_tags m =
           [(''project_id'', project_id), (''region'', region), (''cluster_name'', name),
            (''node_pool_name'', pool)])
   \<and> filter is_remote_call
       (drop (length h)
          (snd (send_metrics_to_newrelic_body env metrics_client project_id region name pool
                  info h))) =
       [SendBatch (make_metrics project_id region name pool info)]
   \<and> (send_batch env h metrics_client (make_metrics project_id region name pool info) =
          Inr status \<and>
        \<not> (200 \<le> status \<and> status < 300) \<longrightarrow>
        send_metrics_to_newrelic_body env metrics_client project_id region name pool info h =
          (Inl (HTTPError status),
           h @ [SendBatch (make_metrics project_id region name pool info)]))
   \<and> (send_batch env h metrics_client (make_metrics project_id region name pool info) =
          Inr status \<and>
        200 \<le> status \<and> status < 300 \<longrightarrow>
        send_metrics_to_newrelic env metrics_client project_id region name pool info h =
          (Inr (),
           h @ [SendBatch (make_metrics project_id region name pool info),
                Print ''Sent metrics successfully!'']))
   \<and> (send_batch env h metrics_client (make_metrics project_id region name pool info) = Inl e
        \<longrightarrow>
        send_metrics_to_newrelic_body env metrics_client project_id region name pool info h =
          (Inl e, h @ [SendBatch (make_metrics project_id region name pool info)]))
   \<and> ((\<forall>i<5. send_failure
                (send_batch env
                   (h @ rounds (SendBatch (make_metrics project_id region name pool info)) i)
                   metrics_client (make_metrics project_id region name pool info)) =
              Some (failure i)) \<longrightarrow>
        send_metrics_to_newrelic env metrics_client project_id region name pool info h =
          (Inl (RetryError (failure 4)),
           h @ rounds (SendBatch (make_metrics project_id region name pool info)) 4 @
             [SendBatch (make_metrics project_id region name pool info)]))
   \<and> (send_metrics_to_newrelic env metrics_client project_id region name pool info h =
          (Inr (), h') \<longrightarrow>
        (\<exists>h1 ok_status.
           send_batch env h1 metrics_client (make_metrics project_id region name pool info) =
             Inr ok_status \<and>
           200 \<le> ok_status \<and> ok_status < 300 \<and>
           h' = h1 @ [SendBatch (make_metrics project_id region name pool info),
                      Print ''Sent metrics successfully!'']))"
proof (intro conjI impI)
  let ?ms = "make_metrics project_id region name pool info"
  let ?body = "send_metrics_to_newrelic_body env metrics_client project_id region name pool info"
  show "length ?ms = 3"
    by (simp add: make_metrics_def Let_def)
  show "map metric_name ?ms =
      [''gke.node_pool.current_node_count'', ''gke.node_pool.max_node_count'',
       ''gke.node_pool.node_usage_percent'']"
    by (simp add: make_metrics_def Let_def)
  show "map metric_value ?ms =
      [IntV (current_node_count info), IntV (max_node_count info), node_usage_percent info]"
    by (simp add: make_metrics_def Let_def)
  show "\<forall>m \<in> set ?ms.
      metric_tags m =
        [(''project_id'', project_id), (''region'', region), (''cluster_name'', name),
         (''node_pool_name'', pool)]"
    by (simp add: make_metrics_def make_tags_def Let_def)
  show "filter is_remote_call (drop (length h) (snd (?body h))) = [SendBatch ?ms]"
    by (simp add: send_body_result split: option.splits)
  {
    assume "send_batch env h metrics_client ?ms = Inr status \<and>
        \<not> (200 \<le> status \<and> status < 300)"
    then show "?body h = (Inl (HTTPError status), h @ [SendBatch ?ms])"
      by (simp add: send_body_result send_failure_def)
  }
  {
    assume "send_batch env h metrics_client ?ms = Inr status \<and> 200 \<le> status \<and> status < 300"
    then have "?body h = (Inr (), h @ [SendBatch ?ms, Print ''Sent metrics successfully!''])"
      by (simp add: send_body_result send_failure_def)
    then show "send_metrics_to_newrelic env metrics_client project_id region name pool info h =
        (Inr (), h @ [SendBatch ?ms, Print ''Sent metrics successfully!''])"
      unfolding send_metrics_to_newrelic_def by (rule retry_Inr)
  }
  {
    assume "send_batch env h metrics_client ?ms = Inl e"
    then show "?body h = (Inl e, h @ [SendBatch ?ms])"
      by (simp add: send_body_result send_failure_def)
  }
  {
    assume "\<forall>i<5. send_failure
        (send_batch env (h @ rounds (SendBatch ?ms) i) metrics_client ?ms) = Some (failure i)"
    then have "\<forall>i<5. ?body (h @ rounds (SendBatch ?ms) i) =
        (Inl (failure i), h @ rounds (SendBatch ?ms) i @ [SendBatch ?ms])"
      by (simp add: send_body_result)
    then show "send_metrics_to_newrelic env metrics_client project_id region name pool info h =
        (Inl (RetryError (failure 4)), h @ rounds (SendBatch ?ms) 4 @ [SendBatch ?ms])"
      unfolding send_metrics_to_newrelic_def by (rule retry_rounds_gives_up)
  }
  {
    assume "send_metrics_to_newrelic env metrics_client project_id region name pool info h =
        (Inr (), h')"
    then obtain h1 where b: "?body h1 = (Inr (), h')"
      unfolding send_metrics_to_newrelic_def retry_def by (blast dest: retry_call_Inr_D)
    then have none: "send_failure (send_batch env h1 metrics_client ?ms) = None"
      and h': "h' = h1 @ [SendBatch ?ms, Print ''Sent metrics successfully!'']"
      by (auto simp: send_body_result split: option.splits)
    from none obtain ok_status where
      "send_batch env h1 metrics_client ?ms = Inr ok_status" "200 \<le> ok_status"
      "ok_status < 300"
      unfolding send_failure_None by blast
    with h' show "\<exists>h1 ok_status.
        send_batch env h1 metrics_client ?ms = Inr ok_status \<and>
        200 \<le> ok_status \<and> ok_status < 300 \<and>
        h' = h1 @ [SendBatch ?ms, Print ''Sent metrics successfully!'']"
      by blast
  }
qed

theorem emitter_three_gauges_one_batch_witness:
  "send_metrics_to_newrelic_body env_503 ''nr-key'' ''p1'' ''us-central1'' ''c1'' ''np1''
     \<lparr>current_node_count = 7, max_node_count = 10, node_usage_percent = FloatV (Finite 70)\<rparr>
     [] =
     (Inl (HTTPError 503),
      [SendBatch (make_metrics ''p1'' ''us-central1'' ''c1'' ''np1''
         \<lparr>current_node_count = 7, max_node_count = 10,
          node_usage_percent = FloatV (Finite 70)\<rparr>)]) \<and>
   send_metrics_to_newrelic env_503 ''nr-key'' ''p1'' ''us-central1'' ''c1'' ''np1''
     \<lparr>current_node_count = 7, max_node_count = 10, node_usage_percent = FloatV (Finite 70)\<rparr>
     [] =
     (Inl (RetryError (HTTPError 503)),
      rounds (SendBatch (make_metrics ''p1'' ''us-central1'' ''c1'' ''np1''
         \<lparr>current_node_count = 7, max_node_count = 10,
          node_usage_percent = FloatV (Finite 70)\<rparr>)) 4 @
      [SendBatch (make_metrics ''p1'' ''us-central1'' ''c1'' ''np1''
         \<lparr>current_node_count = 7, max_node_count = 10,
          node_usage_percent = FloatV (Finite 70)\<rparr>)]) \<and>
   send_metrics_to_newrelic env_p1 ''nr-key'' ''p1'' ''us-central1'' ''c1'' ''np1''
     \<lparr>current_node_count = 7, max_node_count = 10, node_usage_percent = FloatV (Finite 70)\<rparr>
     [] =
     (Inr (),
      [SendBatch (make_metrics ''p1'' ''us-central1'' ''c1'' ''np1''
         \<lparr>current_node_count = 7, max_node_count = 10,
          node_usage_percent = FloatV (Finite 70)\<rparr>),
       Print ''Sent metrics successfully!'']) \<and>
   metric_tags (hd (make_metrics ''p1'' ''us-central1'' ''c1'' ''np1''
     \<lparr>current_node_count = 7, max_node_count = 10,
      node_usage_percent = FloatV (Finite 70)\<rparr>)) =
     [(''project_id'', ''p1''), (''region'', ''us-central1''), (''cluster_name'', ''c1''),
      (''node_pool_name'', ''np1'')]"
proof -
  let ?info = "\<lparr>current_node_count = 7, max_node_count = 10,
      node_usage_percent = FloatV (Finite 70)\<rparr>"
  let ?ms = "make_metrics ''p1'' ''us-central1'' ''c1'' ''np1'' ?info"
  note inst = emitter_three_gauges_one_batch
    [where project_id = "''p1''" and region = "''us-central1''" and name = "''c1''"
      and pool = "''np1''" and info = ?info and h = "[]" and metrics_client = "''nr-key''"]
  have s503: "send_batch env_503 [] ''nr-key'' ?ms = Inr 503 \<and>
      \<not> (200 \<le> (503::int) \<and> (503::int) < 300)"
    by (simp add: env_503_def)
  have a: "send_metrics_to_newrelic_body env_503 ''nr-key'' ''p1'' ''us-central1'' ''c1''
      ''np1'' ?info [] = (Inl (HTTPError 503), [] @ [SendBatch ?ms])"
    by (rule inst [THEN conjunct2, THEN conjunct2, THEN conjunct2, THEN conjunct2,
          THEN conjunct2, THEN conjunct1, THEN mp]) (rule s503)
  have all503: "\<forall>i<5. send_failure (send_batch env_503 ([] @ rounds (SendBatch ?ms) i)
      ''nr-key'' ?ms) = Some (HTTPError 503)"
    by (simp add: env_503_def send_failure_def)
  have b: "send_metrics_to_newrelic env_503 ''nr-key'' ''p1'' ''us-central1'' ''c1'' ''np1''
      ?info [] =
      (Inl (RetryError (HTTPError 503)), [] @ rounds (SendBatch ?ms) 4 @ [SendBatch ?ms])"
    by (rule inst [where failure = "\<lambda>i. HTTPError 503", THEN conjunct2, THEN conjunct2,
          THEN conjunct2, THEN conjunct2, THEN conjunct2, THEN conjunct2, THEN conjunct2,
          THEN conjunct2, THEN conjunct1, THEN mp]) (rule all503)
  have s202: "send_batch env_p1 [] ''nr-key'' ?ms = Inr 202 \<and> 200 \<le> (202::int) \<and>
      (202::int) < 300"
    by (simp add: env_p1_def)
  have c: "send_metrics_to_newrelic env_p1 ''nr-key'' ''p1'' ''us-central1'' ''c1'' ''np1''
      ?info [] = (Inr (), [] @ [SendBatch ?ms, Print ''Sent metrics successfully!''])"
    by (rule inst [THEN conjunct2, THEN conjunct2, THEN conjunct2, THEN conjunct2,
          THEN conjunct2, THEN conjunct2, THEN conjunct1, THEN mp]) (rule s202)
  have mem: "hd ?ms \<in> set ?ms"
    by (simp add: make_metrics_def Let_def)
  have d: "metric_tags (hd ?ms) =
      [(''project_id'', ''p1''), (''region'', ''us-central1''), (''cluster_name'', ''c1''),
       (''node_pool_name'', ''np1'')]"
    by (rule inst [THEN conjunct2, THEN conjunct2, THEN conjunct2, THEN conjunct1,
          THEN bspec]) (rule mem)
  from a b c d show ?thesis by simp
qed

section \<open>ClusterDiscovery: order of the result\<close>

lemma collect_node_pools_foldl:
  "act_map (list_node_pools_of env project_id region) clusters h = (Inr pools, h') \<Longrightarrow>
   collect_node_pools env project_id region clusters d h =
     (Inr (foldl (\<lambda>d (k, v). dict_set d k v) d
             (zip (map cluster_name clusters) (map (map node_pool_name) pools))),
      h')"
proof (induction clusters arbitrary: d h pools)
  case Nil
  then show ?case by (simp add: act_return_def)
next
  case (Cons c clusters)
  from act_map_Cons_Inr [OF Cons.prems] obtain ps pss h1 where
    first: "list_node_pools_of env project_id region c h = (Inr ps, h1)" and
    others: "act_map (list_node_pools_of env project_id region) clusters h1 = (Inr pss, h')" and
    pools: "pools = ps # pss"
    by blast
  have "collect_node_pools env project_id region clusters
      (dict_set d (cluster_name c) (map node_pool_name ps)) h1 =
      (Inr (foldl (\<lambda>d (k, v). dict_set d k v)
              (dict_set d (cluster_name c) (map node_pool_name ps))
              (zip (map cluster_name clusters) (map (map node_pool_name) pss))),
       h')"
    using others by (rule Cons.IH)
  with first pools show ?case
    by (simp add: act_bind_def list_node_pools_of_def)
qed

lemma dict_of_items_snoc:
  "dict_of_items (items @ [(k, v)]) = dict_set (dict_of_items items) k v"
  by (simp add: dict_of_items_def)

lemma dict_of_items_keys:
  "map fst (dict_of_items items) = rev (remdups (rev (map fst items)))"
proof (induction items rule: rev_induct)
  case Nil
  then show ?case by (simp add: dict_of_items_def)
next
  case (snoc kv items)
  obtain k v where kv: "kv = (k, v)" by (cases kv)
  have "set (map fst (dict_of_items items)) = set (map fst items)"
    by (simp add: snoc.IH del: set_map)
  with snoc.IH kv show ?case
    by (simp add: dict_of_items_snoc dict_set_def update_keys image_iff)
qed

lemma dict_of_items_map_of:
  "map_of (dict_of_items items) = map_of (rev items)"
proof (induction items rule: rev_induct)
  case Nil
  then show ?case by (simp add: dict_of_items_def)
next
  case (snoc kv items)
  obtain k v where kv: "kv = (k, v)" by (cases kv)
  with snoc.IH show ?case
    by (simp add: dict_of_items_snoc dict_set_def update_conv')
qed

lemma update_new_key: "k \<notin> fst ` set al \<Longrightarrow> AList.update k v al = al @ [(k, v)]"
  by (induction al) auto

lemma dict_of_items_distinct:
  "distinct (map fst items) \<Longrightarrow> dict_of_items items = items"
proof (induction items rule: rev_induct)
  case Nil
  then show ?case by (simp add: dict_of_items_def)
next
  case (snoc kv items)
  obtain k v where kv: "kv = (k, v)" by (cases kv)
  from snoc.prems kv have "distinct (map fst items)" and "k \<notin> fst ` set items"
    by simp_all
  with snoc.IH kv show ?case
    by (simp add: dict_of_items_snoc dict_set_def update_new_key)
qed

lemma collect_node_pools_returns:
  "collect_node_pools env project_id region clusters d h = (Inr d', h') \<Longrightarrow>
   \<exists>pools. act_map (list_node_pools_of env project_id region) clusters h = (Inr pools, h') \<and>
     d' = foldl (\<lambda>d (k, v). dict_set d k v) d
            (zip (map cluster_name clusters) (map (map node_pool_name) pools))"
proof (induction clusters arbitrary: d h)
  case Nil
  then show ?case by (simp add: act_return_def)
next
  case (Cons c clusters)
  from Cons.prems obtain ps h1 where
    first: "list_node_pools_of env project_id region c h = (Inr ps, h1)" and
    rest: "collect_node_pools env project_id region clusters
      (dict_set d (cluster_name c) (map node_pool_name ps)) h1 = (Inr d', h')"
    by (auto simp: act_bind_def list_node_pools_of_def split: prod.splits sum.splits)
  from Cons.IH [OF rest] obtain pss where
    pss: "act_map (list_node_pools_of env project_id region) clusters h1 = (Inr pss, h')" and
    d': "d' = foldl (\<lambda>d (k, v). dict_set d k v)
      (dict_set d (cluster_name c) (map node_pool_name ps))
      (zip (map cluster_name clusters) (map (map node_pool_name) pss))"
    by blast
  from first pss have "act_map (list_node_pools_of env project_id region) (c # clusters) h =
      (Inr (ps # pss), h')"
    by (rule act_map_Cons_intro)
  with d' show ?case by auto
qed

lemma discovery_body_result:
  assumes "list_clusters env h (location_path project_id region) = Inr clusters"
    and "act_map (list_node_pools_of env project_id region) clusters
           (h @ [ListClusters (location_path project_id region)]) = (Inr pools, h')"
  shows "get_all_clusters_and_node_pools_body env project_id region h =
     (Inr (dict_of_items (zip (map cluster_name clusters) (map (map node_pool_name) pools))),
      h')"
proof -
  have "collect_node_pools env project_id region clusters []
      (h @ [ListClusters (location_path project_id region)]) =
      (Inr (dict_of_items (zip (map cluster_name clusters) (map (map node_pool_name) pools))),
       h')"
    unfolding dict_of_items_def using assms(2) by (rule collect_node_pools_foldl)
  with assms(1) show ?thesis
    by (simp add: get_all_clusters_and_node_pools_body_def act_bind_def invoke_def)
qed

lemma discovery_body_returns:
  assumes "get_all_clusters_and_node_pools_body env project_id region h = (Inr d, h')"
  shows "\<exists>clusters pools.
     list_clusters env h (location_path project_id region) = Inr clusters \<and>
     act_map (list_node_pools_of env project_id region) clusters
       (h @ [ListClusters (location_path project_id region)]) = (Inr pools, h') \<and>
     d = dict_of_items (zip (map cluster_name clusters) (map (map node_pool_name) pools))"
proof -
  from assms obtain clusters where
    lc: "list_clusters env h (location_path project_id region) = Inr clusters" and
    col: "collect_node_pools env project_id region clusters []
      (h @ [ListClusters (location_path project_id region)]) = (Inr d, h')"
    by (auto simp: get_all_clusters_and_node_pools_body_def act_bind_def invoke_def
        split: prod.splits sum.splits)
  from collect_node_pools_returns [OF col] lc show ?thesis
    unfolding dict_of_items_def by blast
qed

lemma dict_of_items_order:
  assumes "length vals = length names"
  shows "map fst (dict_of_items (zip names vals)) = rev (remdups (rev names))"
    and "map_of (dict_of_items (zip names vals)) = map_of (rev (zip names vals))"
    and "distinct names \<longrightarrow> dict_of_items (zip names vals) = zip names vals"
  using assms by (simp_all add: dict_of_items_keys dict_of_items_map_of dict_of_items_distinct)

text \<open>Claim C8. When the cluster listing and the node-pool listing of every cluster
  answer, discovery returns a dict whose keys are the cluster names in the order of the
  listing, each at the place of its first occurrence, and whose value for a name is the list
  of node-pool names in the order of that cluster's listing (of the last cluster of that name,
  should a name repeat). With distinct cluster names the dict is the listing itself, pair by
  pair. Nothing is sorted. Whenever discovery returns a dict, from whichever attempt, the
  dict is built this way from the listings of that attempt.\<close>

theorem discovery_keeps_api_order:
  "(list_clusters env h (location_path project_id region) = Inr clusters \<and>
    act_map (list_node_pools_of env project_id region) clusters
      (h @ [ListClusters (location_path project_id region)]) = (Inr pools, h') \<longrightarrow>
    (\<exists>d. get_all_clusters_and_node_pools env project_id region h = (Inr d, h')
       \<and> map fst d = rev (remdups (rev (map cluster_name clusters)))
       \<and> map_of d =
           map_of (rev (zip (map cluster_name clusters) (map (map node_pool_name) pools)))
       \<and> (distinct (map cluster_name clusters) \<longrightarrow>
           d = zip (map cluster_name clusters) (map (map node_pool_name) pools))))
   \<and> (get_all_clusters_and_node_pools env project_id region h = (Inr d, h') \<longrightarrow>
      (\<exists>h1 clusters1 pools1.
         list_clusters env h1 (location_path project_id region) = Inr clusters1 \<and>
         act_map (list_node_pools_of env project_id region) clusters1
           (h1 @ [ListClusters (location_path project_id region)]) = (Inr pools1, h') \<and>
         map fst d = rev (remdups (rev (map cluster_name clusters1))) \<and>
         map_of d =
           map_of (rev (zip (map cluster_name clusters1) (map (map node_pool_name) pools1))) \<and>
         (distinct (map cluster_name clusters1) \<longrightarrow>
           d = zip (map cluster_name clusters1) (map (map node_pool_name) pools1))))"
proof (intro conjI impI)
  assume a: "list_clusters env h (location_path project_id region) = Inr clusters \<and>
    act_map (list_node_pools_of env project_id region) clusters
      (h @ [ListClusters (location_path project_id region)]) = (Inr pools, h')"
  let ?items = "zip (map cluster_name clusters) (map (map node_pool_name) pools)"
  from a have len: "length (map (map node_pool_name) pools) = length (map cluster_name clusters)"
    by (auto dest: act_map_length)
  from a have "get_all_clusters_and_node_pools_body env project_id region h =
      (Inr (dict_of_items ?items), h')"
    by (intro discovery_body_result) simp_all
  then have "get_all_clusters_and_node_pools env project_id region h =
      (Inr (dict_of_items ?items), h')"
    unfolding get_all_clusters_and_node_pools_def by (rule retry_Inr)
  with dict_of_items_order [OF len]
  show "\<exists>d. get_all_clusters_and_node_pools env project_id region h = (Inr d, h')
     \<and> map fst d = rev (remdups (rev (map cluster_name clusters)))
     \<and> map_of d = map_of (rev ?items)
     \<and> (distinct (map cluster_name clusters) \<longrightarrow> d = ?items)"
    by blast
next
  assume "get_all_clusters_and_node_pools env project_id region h = (Inr d, h')"
  then obtain h1 where
    "get_all_clusters_and_node_pools_body env project_id region h1 = (Inr d, h')"
    unfolding get_all_clusters_and_node_pools_def retry_def by (blast dest: retry_call_Inr_D)
  from discovery_body_returns [OF this] obtain clusters1 pools1 where
    lc: "list_clusters env h1 (location_path project_id region) = Inr clusters1" and
    m: "act_map (list_node_pools_of env project_id region) clusters1
      (h1 @ [ListClusters (location_path project_id region)]) = (Inr pools1, h')" and
    d: "d = dict_of_items (zip (map cluster_name clusters1) (map (map node_pool_name) pools1))"
    by blast
  from m have len: "length (map (map node_pool_name) pools1) =
      length (map cluster_name clusters1)"
    by (auto dest: act_map_length)
  from lc m dict_of_items_order [OF len]
  show "\<exists>h1 clusters1 pools1.
      list_clusters env h1 (location_path project_id region) = Inr clusters1 \<and>
      act_map (list_node_pools_of env project_id region) clusters1
        (h1 @ [ListClusters (location_path project_id region)]) = (Inr pools1, h') \<and>
      map fst d = rev (remdups (rev (map cluster_name clusters1))) \<and>
      map_of d =
        map_of (rev (zip (map cluster_name clusters1) (map (map node_pool_name) pools1))) \<and>
      (distinct (map cluster_name clusters1) \<longrightarrow>
        d = zip (map cluster_name clusters1) (map (map node_pool_name) pools1))"
    unfolding d by blast
qed

theorem discovery_keeps_api_order_witness:
  "list_clusters env_two_clusters [] (location_path ''p1'' ''us-central1'') =
     Inr [Cluster ''zeta'', Cluster ''alpha''] \<and>
   fst (act_map (list_node_pools_of env_two_clusters ''p1'' ''us-central1'')
          [Cluster ''zeta'', Cluster ''alpha'']
          [ListClusters (location_path ''p1'' ''us-central1'')]) =
     Inr [[NodePoolRef ''pool-b'', NodePoolRef ''pool-a''], [NodePoolRef ''pool-c'']] \<and>
   fst (get_all_clusters_and_node_pools env_two_clusters ''p1'' ''us-central1'' []) =
     Inr [(''zeta'', [''pool-b'', ''pool-a'']), (''alpha'', [''pool-c''])]"
proof -
  let ?cs = "[Cluster ''zeta'', Cluster ''alpha'']"
  let ?first = "[ListClusters (location_path ''p1'' ''us-central1'')]"
  define hm where
    "hm = snd (act_map (list_node_pools_of env_two_clusters ''p1'' ''us-central1'') ?cs ?first)"
  have lc: "list_clusters env_two_clusters [] (location_path ''p1'' ''us-central1'') = Inr ?cs"
    by (simp add: env_two_clusters_def)
  have fm: "fst (act_map (list_node_pools_of env_two_clusters ''p1'' ''us-central1'') ?cs ?first) =
      Inr [[NodePoolRef ''pool-b'', NodePoolRef ''pool-a''], [NodePoolRef ''pool-c'']]"
    by code_simp
  then have m: "act_map (list_node_pools_of env_two_clusters ''p1'' ''us-central1'') ?cs
      ([] @ ?first) =
      (Inr [[NodePoolRef ''pool-b'', NodePoolRef ''pool-a''], [NodePoolRef ''pool-c'']], hm)"
    unfolding hm_def by (simp add: prod_eq_iff)
  have "\<exists>d. get_all_clusters_and_node_pools env_two_clusters ''p1'' ''us-central1'' [] =
        (Inr d, hm)
     \<and> map fst d = rev (remdups (rev (map cluster_name ?cs)))
     \<and> map_of d =
         map_of (rev (zip (map cluster_name ?cs)
           (map (map node_pool_name)
              [[NodePoolRef ''pool-b'', NodePoolRef ''pool-a''], [NodePoolRef ''pool-c'']])))
     \<and> (distinct (map cluster_name ?cs) \<longrightarrow>
         d = zip (map cluster_name ?cs)
           (map (map node_pool_name)
              [[NodePoolRef ''pool-b'', NodePoolRef ''pool-a''], [NodePoolRef ''pool-c'']]))"
    by (rule discovery_keeps_api_order [THEN conjunct1, THEN mp]) (intro conjI lc m)
  then have "fst (get_all_clusters_and_node_pools env_two_clusters ''p1'' ''us-central1'' []) =
      Inr [(''zeta'', [''pool-b'', ''pool-a'']), (''alpha'', [''pool-c''])]"
    by auto
  with lc fm show ?thesis by (intro conjI)
qed

section \<open>PollOrchestrator: abort and restart\<close>

lemma node_pool_step_resolve_fails:
  "get_node_pool_info env project_id region name pool h = (Inl e, hc) \<Longrightarrow>
   node_pool_step env metrics_client project_id region name pool h = (Inl e, hc)"
  by (simp add: node_pool_step_def act_bind_def)

lemma node_pool_step_send_fails:
  "get_node_pool_info env project_id region name pool h = (Inr info, hb) \<Longrightarrow>
   send_metrics_to_newrelic env metrics_client project_id region name pool info
     (hb @ [PrintNodePool pool (current_node_count info) (max_node_count info)
              (node_usage_percent info)]) = (Inl e, hc) \<Longrightarrow>
   node_pool_step env metrics_client project_id region name pool h = (Inl e, hc)"
  by (simp add: node_pool_step_def act_bind_def print_node_pool_def)

lemma cluster_step_unfold:
  "cluster_step env metrics_client project_id region (name, pools) h =
   for_each (node_pool_step env metrics_client project_id region name) pools
     (h @ [Print (''  Cluster: '' @ name)])"
  by (simp add: cluster_step_def act_bind_def act_print_def)

lemma project_step_discovery_fails:
  "get_all_clusters_and_node_pools env project_id region
     (h @ [Print (CHR 0x0A # ''Project: '' @ project_id)]) = (Inl e, hc) \<Longrightarrow>
   project_step env metrics_client region project_id h = (Inl e, hc)"
  by (simp add: project_step_def act_bind_def act_print_def)

lemma project_step_clusters:
  "get_all_clusters_and_node_pools env project_id region
     (h @ [Print (CHR 0x0A # ''Project: '' @ project_id)]) = (Inr clusters, hb) \<Longrightarrow>
   project_step env metrics_client region project_id h =
   for_each (cluster_step env metrics_client project_id region) clusters hb"
  by (simp add: project_step_def act_bind_def act_print_def)

lemma orchestrator_body_with_client:
  "MetricClient (getenv env ''NEW_RELIC_API_KEY'') = Inr metrics_client \<Longrightarrow>
   list_clusters_and_node_pools_info_and_send_metrics_body env project_ids region h =
   for_each (project_step env metrics_client region) project_ids h"
  by (simp add: list_clusters_and_node_pools_info_and_send_metrics_body_def act_bind_def
      act_lift_def)

lemma orchestrator_body_without_client:
  "MetricClient (getenv env ''NEW_RELIC_API_KEY'') = Inl e \<Longrightarrow>
   list_clusters_and_node_pools_info_and_send_metrics_body env project_ids region h =
   (Inl e, h)"
  by (simp add: list_clusters_and_node_pools_info_and_send_metrics_body_def act_bind_def
      act_lift_def)

text \<open>Claim C2, as the code has it. Within one attempt of the orchestrator a failed leaf
  call ends the attempt where the leaf stopped: the node-pool loop, the cluster loop and the
  project loop each return that failure and that history, whatever items were still to come.
  An attempt that cannot build its telemetry client fails before any call. The orchestrator
  is itself under the retry policy: after a failed first attempt it sleeps and starts the
  traversal again as attempt 2, and when the run fails it fails with \<open>RetryError\<close> around the
  failure of its last attempt; without a telemetry key that is after five attempts and four
  sleeps, with no remote call at all.\<close>

theorem orchestrator_attempt_aborts:
  "(for_each (node_pool_step env metrics_client project_id region name) pools_before h =
      (Inr (), ha) \<and>
    (get_node_pool_info env project_id region name pool ha = (Inl e, hc) \<or>
     get_node_pool_info env project_id region name pool ha = (Inr info, hb) \<and>
     send_metrics_to_newrelic env metrics_client project_id region name pool info
       (hb @ [PrintNodePool pool (current_node_count info) (max_node_count info)
                (node_usage_percent info)]) = (Inl e, hc))
    \<longrightarrow> for_each (node_pool_step env metrics_client project_id region name)
          (pools_before @ pool # pools_after) h = (Inl e, hc))
   \<and> (for_each (cluster_step env metrics_client project_id region) clusters_before h =
        (Inr (), ha) \<and>
      for_each (node_pool_step env metrics_client project_id region name) pools
        (ha @ [Print (''  Cluster: '' @ name)]) = (Inl e, hc)
    \<longrightarrow> for_each (cluster_step env metrics_client project_id region)
          (clusters_before @ (name, pools) # clusters_after) h = (Inl e, hc))
   \<and> (MetricClient (getenv env ''NEW_RELIC_API_KEY'') = Inr metrics_client \<and>
      for_each (project_step env metrics_client region) projects_before h = (Inr (), ha) \<and>
      (get_all_clusters_and_node_pools env project_id region
         (ha @ [Print (CHR 0x0A # ''Project: '' @ project_id)]) = (Inl e, hc) \<or>
       get_all_clusters_and_node_pools env project_id region
         (ha @ [Print (CHR 0x0A # ''Project: '' @ project_id)]) = (Inr clusters, hb) \<and>
       for_each (cluster_step env metrics_client project_id region) clusters hb = (Inl e, hc))
    \<longrightarrow> list_clusters_and_node_pools_info_and_send_metrics_body env
          (projects_before @ project_id # projects_after) region h = (Inl e, hc))
   \<and> (list_clusters_and_node_pools_info_and_send_metrics_body env project_ids region h =
        (Inl e, ha)
    \<longrightarrow> list_clusters_and_node_pools_info_and_send_metrics env project_ids region h =
          retry_call 2 (list_clusters_and_node_pools_info_and_send_metrics_body env project_ids
            region) (ha @ [Sleep 2]))
   \<and> (list_clusters_and_node_pools_info_and_send_metrics env project_ids region h = (Inl e, hc)
    \<longrightarrow> (\<exists>e' hd. e = RetryError e' \<and>
          list_clusters_and_node_pools_info_and_send_metrics_body env project_ids region hd =
            (Inl e', hc)))
   \<and> (MetricClient (getenv env ''NEW_RELIC_API_KEY'') = Inl e
    \<longrightarrow> list_clusters_and_node_pools_info_and_send_metrics_body env project_ids region h =
          (Inl e, h) \<and>
        list_clusters_and_node_pools_info_and_send_metrics env project_ids region h =
          (Inl (RetryError e), h @ replicate 4 (Sleep 2)))"
proof (intro conjI impI)
  assume a: "for_each (node_pool_step env metrics_client project_id region name) pools_before h =
      (Inr (), ha) \<and>
    (get_node_pool_info env project_id region name pool ha = (Inl e, hc) \<or>
     get_node_pool_info env project_id region name pool ha = (Inr info, hb) \<and>
     send_metrics_to_newrelic env metrics_client project_id region name pool info
       (hb @ [PrintNodePool pool (current_node_count info) (max_node_count info)
                (node_usage_percent info)]) = (Inl e, hc))"
  then have "node_pool_step env metrics_client project_id region name pool ha = (Inl e, hc)"
    by (auto intro: node_pool_step_resolve_fails node_pool_step_send_fails)
  with a show "for_each (node_pool_step env metrics_client project_id region name)
      (pools_before @ pool # pools_after) h = (Inl e, hc)"
    by (intro for_each_abort [where ?h1.0 = ha]) simp_all
next
  assume a: "for_each (cluster_step env metrics_client project_id region) clusters_before h =
      (Inr (), ha) \<and>
    for_each (node_pool_step env metrics_client project_id region name) pools
      (ha @ [Print (''  Cluster: '' @ name)]) = (Inl e, hc)"
  then have "cluster_step env metrics_client project_id region (name, pools) ha = (Inl e, hc)"
    by (simp add: cluster_step_unfold)
  with a show "for_each (cluster_step env metrics_client project_id region)
      (clusters_before @ (name, pools) # clusters_after) h = (Inl e, hc)"
    by (intro for_each_abort [where ?h1.0 = ha]) simp_all
next
  assume a: "MetricClient (getenv env ''NEW_RELIC_API_KEY'') = Inr metrics_client \<and>
    for_each (project_step env metrics_client region) projects_before h = (Inr (), ha) \<and>
    (get_all_clusters_and_node_pools env project_id region
       (ha @ [Print (CHR 0x0A # ''Project: '' @ project_id)]) = (Inl e, hc) \<or>
     get_all_clusters_and_node_pools env project_id region
       (ha @ [Print (CHR 0x0A # ''Project: '' @ project_id)]) = (Inr clusters, hb) \<and>
     for_each (cluster_step env metrics_client project_id region) clusters hb = (Inl e, hc))"
  then have "project_step env metrics_client region project_id ha = (Inl e, hc)"
    by (auto simp: project_step_discovery_fails project_step_clusters)
  with a have "for_each (project_step env metrics_client region)
      (projects_before @ project_id # projects_after) h = (Inl e, hc)"
    by (intro for_each_abort [where ?h1.0 = ha]) simp_all
  with a show "list_clusters_and_node_pools_info_and_send_metrics_body env
      (projects_before @ project_id # projects_after) region h = (Inl e, hc)"
    by (simp add: orchestrator_body_with_client)
next
  assume "list_clusters_and_node_pools_info_and_send_metrics_body env project_ids region h =
      (Inl e, ha)"
  then have "retry_call 1
      (list_clusters_and_node_pools_info_and_send_metrics_body env project_ids region) h =
      retry_call (Suc 1)
        (list_clusters_and_node_pools_info_and_send_metrics_body env project_ids region)
        (ha @ [Sleep RETRY_WAIT])"
    by (rule retry_call_again) (simp add: RETRY_ATTEMPTS_def)
  then show "list_clusters_and_node_pools_info_and_send_metrics env project_ids region h =
      retry_call 2 (list_clusters_and_node_pools_info_and_send_metrics_body env project_ids
        region) (ha @ [Sleep 2])"
    by (simp add: list_clusters_and_node_pools_info_and_send_metrics_def retry_def
        RETRY_WAIT_def numeral_2_eq_2)
next
  assume "list_clusters_and_node_pools_info_and_send_metrics env project_ids region h =
      (Inl e, hc)"
  then show "\<exists>e' hd. e = RetryError e' \<and>
      list_clusters_and_node_pools_info_and_send_metrics_body env project_ids region hd =
        (Inl e', hc)"
    unfolding list_clusters_and_node_pools_info_and_send_metrics_def retry_def
    by (rule retry_call_Inl_D)
next
  assume a: "MetricClient (getenv env ''NEW_RELIC_API_KEY'') = Inl e"
  then have body: "\<And>h. list_clusters_and_node_pools_info_and_send_metrics_body env project_ids
      region h = (Inl e, h)"
    by (rule orchestrator_body_without_client)
  show "list_clusters_and_node_pools_info_and_send_metrics_body env project_ids region h =
      (Inl e, h)"
    by (rule body)
  have "retry_call 1
      (list_clusters_and_node_pools_info_and_send_metrics_body env project_ids region) h =
      (Inl (RetryError e), h @ replicate 4 (Sleep RETRY_WAIT))"
    by (rule retry_call_pure_failure [OF body]) (simp add: RETRY_ATTEMPTS_def)
  then show "list_clusters_and_node_pools_info_and_send_metrics env project_ids region h =
      (Inl (RetryError e), h @ replicate 4 (Sleep 2))"
    by (simp add: list_clusters_and_node_pools_info_and_send_metrics_def retry_def
        RETRY_WAIT_def)
qed

theorem orchestrator_attempt_aborts_witness:
  "for_each (node_pool_step env_np2_down ''nr-key'' ''p1'' ''us-central1'' ''c1'')
       [''np1'', ''np2''] [] =
     (Inl (RetryError (RemoteError ''unavailable'')),
      snd (get_node_pool_info env_np2_down ''p1'' ''us-central1'' ''c1'' ''np2''
             (snd (for_each (node_pool_step env_np2_down ''nr-key'' ''p1'' ''us-central1'' ''c1'')
                     [''np1''] [])))) \<and>
   for_each (cluster_step env_np2_down ''nr-key'' ''p1'' ''us-central1'')
       [(''c1'', [''np1'', ''np2''])] [] =
     (Inl (RetryError (RemoteError ''unavailable'')),
      snd (for_each (node_pool_step env_np2_down ''nr-key'' ''p1'' ''us-central1'' ''c1'')
             [''np1'', ''np2''] [Print ''  Cluster: c1''])) \<and>
   list_clusters_and_node_pools_info_and_send_metrics_body env_np2_down [''p1'']
       ''us-central1'' [] =
     (Inl (RetryError (RemoteError ''unavailable'')),
      snd (for_each (cluster_step env_np2_down ''nr-key'' ''p1'' ''us-central1'')
             [(''c1'', [''np1'', ''np2''])]
             (snd (get_all_clusters_and_node_pools env_np2_down ''p1'' ''us-central1''
                     [Print (CHR 0x0A # ''Project: p1'')])))) \<and>
   list_clusters_and_node_pools_info_and_send_metrics env_np2_down [''p1''] ''us-central1'' [] =
     retry_call 2
       (list_clusters_and_node_pools_info_and_send_metrics_body env_np2_down [''p1'']
          ''us-central1'')
       (snd (list_clusters_and_node_pools_info_and_send_metrics_body env_np2_down [''p1'']
               ''us-central1'' []) @ [Sleep 2]) \<and>
   (\<exists>e' hd. RetryError (RetryError (RemoteError ''unavailable'')) = RetryError e' \<and>
      list_clusters_and_node_pools_info_and_send_metrics_body env_np2_down [''p1'']
          ''us-central1'' hd =
        (Inl e',
         snd (list_clusters_and_node_pools_info_and_send_metrics env_np2_down [''p1'']
                ''us-central1'' []))) \<and>
   list_clusters_and_node_pools_info_and_send_metrics env_no_key [''p1''] ''us-central1'' [] =
     (Inl (RetryError ValueError), [Sleep 2, Sleep 2, Sleep 2, Sleep 2])"
proof -
  let ?E = env_np2_down
  let ?err = "RetryError (RemoteError ''unavailable'')"
  let ?pools = "for_each (node_pool_step ?E ''nr-key'' ''p1'' ''us-central1'' ''c1'')"
  let ?clusters = "for_each (cluster_step ?E ''nr-key'' ''p1'' ''us-central1'')"
  let ?body = "list_clusters_and_node_pools_info_and_send_metrics_body ?E [''p1''] ''us-central1''"
  let ?run = "list_clusters_and_node_pools_info_and_send_metrics ?E [''p1''] ''us-central1''"
  define ha where "ha = snd (?pools [''np1''] [])"
  define hleaf where
    "hleaf = snd (get_node_pool_info ?E ''p1'' ''us-central1'' ''c1'' ''np2''
       (snd (?pools [''np1''] [])))"
  define hp where "hp = snd (?pools [''np1'', ''np2''] [Print ''  Cluster: c1''])"
  define hdisc where
    "hdisc = snd (get_all_clusters_and_node_pools ?E ''p1'' ''us-central1''
       [Print (CHR 0x0A # ''Project: p1'')])"
  define hc where
    "hc = snd (?clusters [(''c1'', [''np1'', ''np2''])]
       (snd (get_all_clusters_and_node_pools ?E ''p1'' ''us-central1''
          [Print (CHR 0x0A # ''Project: p1'')])))"
  define hrun where "hrun = snd (?run [])"
  have "fst (?pools [''np1''] []) = Inr ()"
    by code_simp
  then have before: "?pools [''np1''] [] = (Inr (), ha)"
    unfolding ha_def by (simp add: prod_eq_iff del: for_each.simps)
  have "fst (get_node_pool_info ?E ''p1'' ''us-central1'' ''c1'' ''np2''
      (snd (?pools [''np1''] []))) = Inl ?err"
    by code_simp
  then have leaf: "get_node_pool_info ?E ''p1'' ''us-central1'' ''c1'' ''np2'' ha =
      (Inl ?err, hleaf)"
    unfolding ha_def hleaf_def by (simp add: prod_eq_iff del: for_each.simps)
  have w1: "?pools ([''np1''] @ ''np2'' # []) [] = (Inl ?err, hleaf)"
    by (rule orchestrator_attempt_aborts [where ha = ha, THEN conjunct1, THEN mp])
      (intro conjI disjI1 before leaf)
  have "fst (?pools [''np1'', ''np2''] [Print ''  Cluster: c1'']) = Inl ?err"
    by code_simp
  then have inner: "?pools [''np1'', ''np2''] ([] @ [Print (''  Cluster: '' @ ''c1'')]) =
      (Inl ?err, hp)"
    unfolding hp_def by (simp add: prod_eq_iff del: for_each.simps)
  have none: "?clusters [] [] = (Inr (), [])"
    by (simp add: act_return_def)
  have w2: "?clusters ([] @ (''c1'', [''np1'', ''np2'']) # []) [] = (Inl ?err, hp)"
    by (rule orchestrator_attempt_aborts
        [where ha = "[]", THEN conjunct2, THEN conjunct1, THEN mp])
      (intro conjI none inner)
  have key: "MetricClient (getenv ?E ''NEW_RELIC_API_KEY'') = Inr ''nr-key''"
    by code_simp
  have "fst (get_all_clusters_and_node_pools ?E ''p1'' ''us-central1''
      [Print (CHR 0x0A # ''Project: p1'')]) = Inr [(''c1'', [''np1'', ''np2''])]"
    by code_simp
  then have disc: "get_all_clusters_and_node_pools ?E ''p1'' ''us-central1''
      ([] @ [Print (CHR 0x0A # ''Project: '' @ ''p1'')]) =
      (Inr [(''c1'', [''np1'', ''np2''])], hdisc)"
    unfolding hdisc_def by (simp add: prod_eq_iff)
  have "fst (?clusters [(''c1'', [''np1'', ''np2''])]
      (snd (get_all_clusters_and_node_pools ?E ''p1'' ''us-central1''
         [Print (CHR 0x0A # ''Project: p1'')]))) = Inl ?err"
    by code_simp
  then have loop: "?clusters [(''c1'', [''np1'', ''np2''])] hdisc = (Inl ?err, hc)"
    unfolding hdisc_def hc_def by (simp add: prod_eq_iff del: for_each.simps)
  have nop: "for_each (project_step ?E ''nr-key'' ''us-central1'') [] [] = (Inr (), [])"
    by (simp add: act_return_def)
  have w3': "list_clusters_and_node_pools_info_and_send_metrics_body ?E ([] @ ''p1'' # [])
      ''us-central1'' [] = (Inl ?err, hc)"
    by (rule orchestrator_attempt_aborts
        [where ha = "[]" and hb = hdisc and clusters = "[(''c1'', [''np1'', ''np2''])]"
          and metrics_client = "''nr-key''",
          THEN conjunct2, THEN conjunct2, THEN conjunct1, THEN mp])
      (intro conjI disjI2 key nop disc loop)
  then have w3: "?body [] = (Inl ?err, hc)"
    by simp
  have again: "?body [] = (Inl ?err, snd (?body []))"
    by (simp add: w3)
  have w4: "?run [] = retry_call 2 ?body (snd (?body []) @ [Sleep 2])"
    by (rule orchestrator_attempt_aborts
        [where e = ?err and ha = "snd (?body [])",
          THEN conjunct2, THEN conjunct2, THEN conjunct2, THEN conjunct1, THEN mp])
      (rule again)
  have "fst (?run []) = Inl (RetryError ?err)"
    by code_simp
  then have failed: "?run [] = (Inl (RetryError ?err), hrun)"
    unfolding hrun_def by (simp add: prod_eq_iff)
  have w5: "\<exists>e' hd. RetryError ?err = RetryError e' \<and> ?body hd = (Inl e', hrun)"
    by (rule orchestrator_attempt_aborts
        [THEN conjunct2, THEN conjunct2, THEN conjunct2, THEN conjunct2, THEN conjunct1,
          THEN mp])
      (rule failed)
  have no_key: "MetricClient (getenv env_no_key ''NEW_RELIC_API_KEY'') = Inl ValueError"
    by code_simp
  have sleeps: "replicate 4 (Sleep 2) = [Sleep 2, Sleep 2, Sleep 2, Sleep 2]"
    by code_simp
  have "list_clusters_and_node_pools_info_and_send_metrics_body env_no_key [''p1'']
        ''us-central1'' [] = (Inl ValueError, []) \<and>
      list_clusters_and_node_pools_info_and_send_metrics env_no_key [''p1''] ''us-central1'' [] =
        (Inl (RetryError ValueError), [] @ replicate 4 (Sleep 2))"
    by (rule orchestrator_attempt_aborts
        [THEN conjunct2, THEN conjunct2, THEN conjunct2, THEN conjunct2, THEN conjunct2,
          THEN mp])
      (rule no_key)
  then have w6: "list_clusters_and_node_pools_info_and_send_metrics env_no_key [''p1'']
      ''us-central1'' [] = (Inl (RetryError ValueError), [Sleep 2, Sleep 2, Sleep 2, Sleep 2])"
    by (simp add: sleeps)
  have w1': "?pools [''np1'', ''np2''] [] = (Inl ?err, hleaf)"
    using w1 by (simp del: for_each.simps)
  have w2': "?clusters [(''c1'', [''np1'', ''np2''])] [] = (Inl ?err, hp)"
    using w2 by (simp del: for_each.simps)
  show ?thesis
    by (intro conjI w1' [unfolded hleaf_def] w2' [unfolded hp_def] w3 [unfolded hc_def] w4
        w5 [unfolded hrun_def] w6)
qed

text \<open>Claim C2 as the specification words it, a run that aborts on the first unrecovered
  failure with no emission afterwards, does not hold: with the second node pool out of reach,
  the first attempt ends in the resolver's \<open>RetryError\<close>, and the run goes on from that
  history and sends the first pool's metrics four more times.\<close>

theorem orchestrator_restart_counterexample:
  "fst (list_clusters_and_node_pools_info_and_send_metrics_body env_np2_down [''p1'']
          ''us-central1'' []) = Inl (RetryError (RemoteError ''unavailable'')) \<and>
   length (filter is_emission
     (snd (list_clusters_and_node_pools_info_and_send_metrics_body env_np2_down [''p1'']
             ''us-central1'' []))) = 1 \<and>
   take (length (snd (list_clusters_and_node_pools_info_and_send_metrics_body env_np2_down
                        [''p1''] ''us-central1'' [])))
     (snd (list_clusters_and_node_pools_info_and_send_metrics env_np2_down [''p1'']
             ''us-central1'' [])) =
     snd (list_clusters_and_node_pools_info_and_send_metrics_body env_np2_down [''p1'']
            ''us-central1'' []) \<and>
   length (filter is_emission
     (drop (length (snd (list_clusters_and_node_pools_info_and_send_metrics_body env_np2_down
                           [''p1''] ''us-central1'' [])))
        (snd (list_clusters_and_node_pools_info_and_send_metrics env_np2_down [''p1'']
                ''us-central1'' [])))) = 4"
  by code_simp

end
